theory Spec2Isabelle
  imports Main "HOL-Library.Word"
begin

unbundle bit_operations_syntax

section \<open>Data model of statusnotifier.c\<close>

text \<open>
  The item is the private structure \<^verbatim>\<open>struct _StatusNotifierItemPrivate\<close>. Every function
  of the source that works on an item takes the structure and returns the list of the
  effects it has on the outside (GObject notifications, DBus signals, GLib calls) together
  with the updated structure. The check \<^verbatim>\<open>g_return_if_fail (STATUS_NOTIFIER_IS_ITEM (sn))\<close>
  that opens every public function holds for every value of the record type.
\<close>

subsection \<open>Enumerations\<close>

text \<open>The anonymous enumeration of property ids, \<^verbatim>\<open>PROP_0\<close> to \<^verbatim>\<open>PROP_REGISTER_NAME_ON_BUS\<close>.\<close>

datatype prop_id =
    PROP_0
  | PROP_ID
  | PROP_TITLE
  | PROP_CATEGORY
  | PROP_STATUS
  | PROP_MAIN_ICON_NAME
  | PROP_MAIN_ICON_PIXBUF
  | PROP_OVERLAY_ICON_NAME
  | PROP_OVERLAY_ICON_PIXBUF
  | PROP_ATTENTION_ICON_NAME
  | PROP_ATTENTION_ICON_PIXBUF
  | PROP_ATTENTION_MOVIE_NAME
  | PROP_TOOLTIP_ICON_NAME
  | PROP_TOOLTIP_ICON_PIXBUF
  | PROP_TOOLTIP_TITLE
  | PROP_TOOLTIP_BODY
  | PROP_ITEM_IS_MENU
  | PROP_MENU
  | PROP_WINDOW_ID
  | PROP_STATE
  | PROP_REGISTER_NAME_ON_BUS

text \<open>
  Modelled from the spec: the enumerations \<^verbatim>\<open>StatusNotifierCategory\<close>,
  \<^verbatim>\<open>StatusNotifierStatus\<close>, \<^verbatim>\<open>StatusNotifierState\<close>, \<^verbatim>\<open>StatusNotifierIcon\<close>,
  \<^verbatim>\<open>StatusNotifierScrollOrientation\<close> and \<^verbatim>\<open>StatusNotifierError\<close> are declared in
  statusnotifier.h, which is not among the sources. Their enumerators are the names the
  source uses. Categories and statuses are numbered in the order in which the spec
  enumerates them, which is the order of the label tables \<^verbatim>\<open>s_category\<close> and
  \<^verbatim>\<open>s_status\<close>; the icons are numbered in the order in which the tables
  \<^verbatim>\<open>prop_name_from_icon\<close> and \<^verbatim>\<open>prop_pixbuf_from_icon\<close> list their properties.
\<close>

datatype StatusNotifierCategory =
    STATUS_NOTIFIER_CATEGORY_APPLICATION_STATUS
  | STATUS_NOTIFIER_CATEGORY_COMMUNICATIONS
  | STATUS_NOTIFIER_CATEGORY_SYSTEM_SERVICES
  | STATUS_NOTIFIER_CATEGORY_HARDWARE

datatype StatusNotifierStatus =
    STATUS_NOTIFIER_STATUS_PASSIVE
  | STATUS_NOTIFIER_STATUS_ACTIVE
  | STATUS_NOTIFIER_STATUS_NEEDS_ATTENTION

datatype StatusNotifierState =
    STATUS_NOTIFIER_STATE_NOT_REGISTERED
  | STATUS_NOTIFIER_STATE_REGISTERING
  | STATUS_NOTIFIER_STATE_REGISTERED
  | STATUS_NOTIFIER_STATE_FAILED

datatype StatusNotifierIcon =
    STATUS_NOTIFIER_ICON
  | STATUS_NOTIFIER_ATTENTION_ICON
  | STATUS_NOTIFIER_OVERLAY_ICON
  | STATUS_NOTIFIER_TOOLTIP_ICON

datatype StatusNotifierScrollOrientation =
    STATUS_NOTIFIER_SCROLL_ORIENTATION_HORIZONTAL
  | STATUS_NOTIFIER_SCROLL_ORIENTATION_VERTICAL

text \<open>
  The errors handed to the signal registration-failed: the four codes the source sets
  itself, and \<open>BUS_ERROR\<close> for a \<^verbatim>\<open>GError\<close> that GLib's bus functions filled in.
\<close>

datatype StatusNotifierError =
    STATUS_NOTIFIER_ERROR_NO_CONNECTION
  | STATUS_NOTIFIER_ERROR_NO_NAME
  | STATUS_NOTIFIER_ERROR_NO_WATCHER
  | STATUS_NOTIFIER_ERROR_NO_HOST
  | BUS_ERROR

fun category_value :: "StatusNotifierCategory \<Rightarrow> nat" where
  "category_value STATUS_NOTIFIER_CATEGORY_APPLICATION_STATUS = 0"
| "category_value STATUS_NOTIFIER_CATEGORY_COMMUNICATIONS = 1"
| "category_value STATUS_NOTIFIER_CATEGORY_SYSTEM_SERVICES = 2"
| "category_value STATUS_NOTIFIER_CATEGORY_HARDWARE = 3"

fun status_value :: "StatusNotifierStatus \<Rightarrow> nat" where
  "status_value STATUS_NOTIFIER_STATUS_PASSIVE = 0"
| "status_value STATUS_NOTIFIER_STATUS_ACTIVE = 1"
| "status_value STATUS_NOTIFIER_STATUS_NEEDS_ATTENTION = 2"

fun icon_value :: "StatusNotifierIcon \<Rightarrow> nat" where
  "icon_value STATUS_NOTIFIER_ICON = 0"
| "icon_value STATUS_NOTIFIER_ATTENTION_ICON = 1"
| "icon_value STATUS_NOTIFIER_OVERLAY_ICON = 2"
| "icon_value STATUS_NOTIFIER_TOOLTIP_ICON = 3"

definition prop_name_from_icon :: "prop_id list" where
  "prop_name_from_icon =
     [PROP_MAIN_ICON_NAME, PROP_ATTENTION_ICON_NAME, PROP_OVERLAY_ICON_NAME,
      PROP_TOOLTIP_ICON_NAME]"

definition prop_pixbuf_from_icon :: "prop_id list" where
  "prop_pixbuf_from_icon =
     [PROP_MAIN_ICON_PIXBUF, PROP_ATTENTION_ICON_PIXBUF, PROP_OVERLAY_ICON_PIXBUF,
      PROP_TOOLTIP_ICON_PIXBUF]"

definition s_status :: "string list" where
  "s_status = [''Passive'', ''Active'', ''NeedsAttention'']"

definition s_category :: "string list" where
  "s_category = [''ApplicationStatus'', ''Communications'', ''SystemServices'', ''Hardware'']"

subsection \<open>The private structure\<close>

text \<open>
  A \<^verbatim>\<open>GdkPixbuf\<close> belongs to the image library; the source reads only its width and its
  height and hands it to cairo for painting.
\<close>

record GdkPixbuf =
  pixbuf_width :: int
  pixbuf_height :: int
  pixbuf_pixels :: "8 word list"

text \<open>
  One element of the array \<^verbatim>\<open>icon\<close>: the flag \<^verbatim>\<open>has_pixbuf\<close> and the anonymous union of
  the two pointers \<^verbatim>\<open>icon_name\<close> and \<^verbatim>\<open>pixbuf\<close>. The union is one pointer: it is null,
  or it points to a string, or it points to a pixbuf, and the flag says through which
  member the source reads it.
\<close>

datatype icon_union = null_ptr | icon_name_ptr string | pixbuf_ptr GdkPixbuf

record icon_slot =
  has_pixbuf :: bool
  icon_ptr :: icon_union

text \<open>
  The member \<^verbatim>\<open>icon_name\<close> of the union, as a string pointer that may be null, and below
  it the member \<^verbatim>\<open>pixbuf\<close>. Read through the member that does not fit it, a pointer has
  no meaning as a value of the model, and the two functions give \<open>None\<close>; no public call
  leaves a slot whose flag selects the wrong member (\<open>icons_exclusive\<close> below).
\<close>

fun icon_name :: "icon_slot \<Rightarrow> string option" where
  "icon_name s = (case icon_ptr s of icon_name_ptr n \<Rightarrow> Some n | _ \<Rightarrow> None)"

fun pixbuf :: "icon_slot \<Rightarrow> GdkPixbuf option" where
  "pixbuf s = (case icon_ptr s of pixbuf_ptr pb \<Rightarrow> Some pb | _ \<Rightarrow> None)"

datatype GDBusConnection = Connection (unique_name: string)

datatype GDBusProxy = Proxy (proxy_connection: GDBusConnection)

record StatusNotifierItemPrivate =
  id_str :: "string option"
  category :: StatusNotifierCategory
  title :: "string option"
  status :: StatusNotifierStatus
  icon :: "StatusNotifierIcon \<Rightarrow> icon_slot"
  attention_movie_name :: "string option"
  tooltip_title :: "string option"
  tooltip_body :: "string option"
  window_id :: "32 word"
  item_is_menu :: bool
  tooltip_freeze :: "32 word"
  state :: StatusNotifierState
  dbus_watch_id :: nat
  dbus_sid :: nat
  dbus_owner_id :: nat
  dbus_reg_id :: nat
  register_bus_name :: int
  dbus_proxy :: "GDBusProxy option"
  dbus_conn :: "GDBusConnection option"

subsection \<open>Effects\<close>

text \<open>
  What a function does to the outside, in the order in which it does it: \<open>Notify\<close> is
  \<^verbatim>\<open>g_object_notify_by_pspec\<close> (the macro \<^verbatim>\<open>notify\<close>) or \<^verbatim>\<open>g_object_notify\<close>,
  \<open>EmitSignal\<close> is \<^verbatim>\<open>g_dbus_connection_emit_signal\<close> with the signal's name and its
  string parameter when it has one, \<open>Critical\<close> is the message logged by a failed
  \<^verbatim>\<open>g_return_if_fail\<close> or by \<^verbatim>\<open>g_return_if_reached\<close>, the \<open>Signal\<close> effects are the
  \<^verbatim>\<open>g_signal_emit\<close> of the item's own GObject signals, \<open>ReturnValue\<close> is
  \<^verbatim>\<open>g_dbus_method_invocation_return_value (invocation, NULL)\<close>, \<open>UnrefProxy\<close> and
  \<open>UnrefConnection\<close> are the \<^verbatim>\<open>g_object_unref\<close> of the watcher proxy and of the bus
  connection, and the others are the calls to the bus library named after them.
\<close>

datatype effect =
    Notify prop_id
  | EmitSignal string "string option"
  | Critical
  | SignalRegistrationFailed StatusNotifierError
  | SignalContextMenu "32 word" "32 word"
  | SignalActivate "32 word" "32 word"
  | SignalSecondaryActivate "32 word" "32 word"
  | SignalScroll "32 word" StatusNotifierScrollOrientation
  | ReturnValue
  | WatchName
  | UnwatchName nat
  | SignalConnect nat
  | SignalHandlerDisconnect nat
  | OwnName nat "32 word"
  | UnownName nat
  | RegisterObject
  | UnregisterObject nat
  | ProxyNew
  | ProxyCall string "string option"
  | UnrefProxy GDBusProxy
  | UnrefConnection GDBusConnection
  | FileTest string

type_synonym action = "StatusNotifierItemPrivate \<Rightarrow> effect list \<times> StatusNotifierItemPrivate"

text \<open>One statement after the other: the effects are appended, the structure is passed on.\<close>

definition and_then :: "action \<Rightarrow> action \<Rightarrow> action" where
  "and_then f g p =
     (case f p of (e1, p1) \<Rightarrow> (case g p1 of (e2, p2) \<Rightarrow> (e1 @ e2, p2)))"

text \<open>The local notifications and the DBus signals among a list of effects.\<close>

fun notified :: "effect list \<Rightarrow> prop_id list" where
  "notified [] = []"
| "notified (Notify q # es) = q # notified es"
| "notified (_ # es) = notified es"

fun wire :: "effect list \<Rightarrow> (string \<times> string option) list" where
  "wire [] = []"
| "wire (EmitSignal s a # es) = (s, a) # wire es"
| "wire (_ # es) = wire es"

section \<open>Item state: setters and DBus notification\<close>

definition free_icon :: "StatusNotifierIcon \<Rightarrow> StatusNotifierItemPrivate \<Rightarrow> StatusNotifierItemPrivate" where
  "free_icon i p = p\<lparr>icon := (icon p)(i := \<lparr>has_pixbuf = False, icon_ptr = null_ptr\<rparr>)\<rparr>"

definition dbus_notify :: "prop_id \<Rightarrow> StatusNotifierItemPrivate \<Rightarrow> effect list" where
  "dbus_notify q p =
     (if state p \<noteq> STATUS_NOTIFIER_STATE_REGISTERED then []
      else case q of
        PROP_STATUS \<Rightarrow> [EmitSignal ''NewStatus'' (Some (s_status ! status_value (status p)))]
      | PROP_TITLE \<Rightarrow> [EmitSignal ''NewTitle'' None]
      | PROP_MAIN_ICON_NAME \<Rightarrow> [EmitSignal ''NewIcon'' None]
      | PROP_MAIN_ICON_PIXBUF \<Rightarrow> [EmitSignal ''NewIcon'' None]
      | PROP_ATTENTION_ICON_NAME \<Rightarrow> [EmitSignal ''NewAttentionIcon'' None]
      | PROP_ATTENTION_ICON_PIXBUF \<Rightarrow> [EmitSignal ''NewAttentionIcon'' None]
      | PROP_OVERLAY_ICON_NAME \<Rightarrow> [EmitSignal ''NewOverlayIcon'' None]
      | PROP_OVERLAY_ICON_PIXBUF \<Rightarrow> [EmitSignal ''NewOverlayIcon'' None]
      | PROP_TOOLTIP_TITLE \<Rightarrow> [EmitSignal ''NewToolTip'' None]
      | PROP_TOOLTIP_BODY \<Rightarrow> [EmitSignal ''NewToolTip'' None]
      | PROP_TOOLTIP_ICON_NAME \<Rightarrow> [EmitSignal ''NewToolTip'' None]
      | PROP_TOOLTIP_ICON_PIXBUF \<Rightarrow> [EmitSignal ''NewToolTip'' None]
      | _ \<Rightarrow> [Critical])"

text \<open>
  \<^verbatim>\<open>g_object_ref (pixbuf)\<close>: for a null pointer GLib logs a critical message and returns
  null.
\<close>

definition status_notifier_item_set_from_pixbuf ::
    "StatusNotifierIcon \<Rightarrow> GdkPixbuf option \<Rightarrow> action" where
  "status_notifier_item_set_from_pixbuf i pb p =
     (let p1 = free_icon i p;
          p2 = p1\<lparr>icon := (icon p1)(i := (icon p1 i)\<lparr>has_pixbuf := True\<rparr>)\<rparr>;
          p3 = p2\<lparr>icon := (icon p2)(i := (icon p2 i)
                 \<lparr>icon_ptr := (case pb of None \<Rightarrow> null_ptr | Some b \<Rightarrow> pixbuf_ptr b)\<rparr>)\<rparr>
      in ((case pb of None \<Rightarrow> [Critical] | Some _ \<Rightarrow> [])
          @ [Notify (prop_name_from_icon ! icon_value i)]
          @ (if i \<noteq> STATUS_NOTIFIER_TOOLTIP_ICON \<or> tooltip_freeze p3 = 0
             then dbus_notify (prop_name_from_icon ! icon_value i) p3 else []),
          p3))"

text \<open>\<^verbatim>\<open>g_strdup\<close> of a null pointer is null.\<close>

definition status_notifier_item_set_from_icon_name ::
    "StatusNotifierIcon \<Rightarrow> string option \<Rightarrow> action" where
  "status_notifier_item_set_from_icon_name i name p =
     (let p1 = free_icon i p;
          p2 = p1\<lparr>icon := (icon p1)(i := (icon p1 i)
                 \<lparr>icon_ptr := (case name of None \<Rightarrow> null_ptr | Some n \<Rightarrow> icon_name_ptr n)\<rparr>)\<rparr>
      in ([Notify (prop_pixbuf_from_icon ! icon_value i)]
          @ (if i \<noteq> STATUS_NOTIFIER_TOOLTIP_ICON \<or> tooltip_freeze p2 = 0
             then dbus_notify (prop_name_from_icon ! icon_value i) p2 else []),
          p2))"

definition status_notifier_item_has_pixbuf ::
    "StatusNotifierIcon \<Rightarrow> StatusNotifierItemPrivate \<Rightarrow> bool" where
  "status_notifier_item_has_pixbuf i p = has_pixbuf (icon p i)"

definition status_notifier_item_get_pixbuf ::
    "StatusNotifierIcon \<Rightarrow> StatusNotifierItemPrivate \<Rightarrow> GdkPixbuf option" where
  "status_notifier_item_get_pixbuf i p =
     (if \<not> has_pixbuf (icon p i) then None else pixbuf (icon p i))"

definition status_notifier_item_get_icon_name ::
    "StatusNotifierIcon \<Rightarrow> StatusNotifierItemPrivate \<Rightarrow> string option" where
  "status_notifier_item_get_icon_name i p =
     (if has_pixbuf (icon p i) then None else icon_name (icon p i))"

definition status_notifier_item_set_attention_movie_name :: "string option \<Rightarrow> action" where
  "status_notifier_item_set_attention_movie_name movie_name p =
     ([Notify PROP_ATTENTION_MOVIE_NAME], p\<lparr>attention_movie_name := movie_name\<rparr>)"

definition status_notifier_item_set_title :: "string option \<Rightarrow> action" where
  "status_notifier_item_set_title t p =
     (let p1 = p\<lparr>title := t\<rparr>
      in ([Notify PROP_TITLE] @ dbus_notify PROP_TITLE p1, p1))"

definition status_notifier_item_set_status :: "StatusNotifierStatus \<Rightarrow> action" where
  "status_notifier_item_set_status s p =
     (let p1 = p\<lparr>status := s\<rparr>
      in ([Notify PROP_STATUS] @ dbus_notify PROP_STATUS p1, p1))"

definition status_notifier_item_set_window_id :: "32 word \<Rightarrow> action" where
  "status_notifier_item_set_window_id w p = ([Notify PROP_WINDOW_ID], p\<lparr>window_id := w\<rparr>)"

definition status_notifier_item_set_item_is_menu :: "bool \<Rightarrow> action" where
  "status_notifier_item_set_item_is_menu is_menu p = ([], p\<lparr>item_is_menu := is_menu\<rparr>)"

text \<open>
  Compiled without the dbusmenu support (\<^verbatim>\<open>USE_DBUSMENU\<close> is 0), the setter of the
  context menu only returns \<^verbatim>\<open>FALSE\<close>.
\<close>

definition status_notifier_item_set_context_menu :: action where
  "status_notifier_item_set_context_menu p = ([], p)"

text \<open>The freeze count is a \<^verbatim>\<open>guint\<close>: incrementing and decrementing wrap around.\<close>

definition status_notifier_item_freeze_tooltip :: action where
  "status_notifier_item_freeze_tooltip p = ([], p\<lparr>tooltip_freeze := tooltip_freeze p + 1\<rparr>)"

definition status_notifier_item_thaw_tooltip :: action where
  "status_notifier_item_thaw_tooltip p =
     (if \<not> tooltip_freeze p > 0 then ([Critical], p)
      else let p1 = p\<lparr>tooltip_freeze := tooltip_freeze p - 1\<rparr>
           in (if tooltip_freeze p1 = 0 then dbus_notify PROP_TOOLTIP_TITLE p1 else [], p1))"

definition status_notifier_item_set_tooltip_title :: "string option \<Rightarrow> action" where
  "status_notifier_item_set_tooltip_title t p =
     (let p1 = p\<lparr>tooltip_title := t\<rparr>
      in ([Notify PROP_TOOLTIP_TITLE]
          @ (if tooltip_freeze p1 = 0 then dbus_notify PROP_TOOLTIP_TITLE p1 else []), p1))"

definition status_notifier_item_set_tooltip_body :: "string option \<Rightarrow> action" where
  "status_notifier_item_set_tooltip_body b p =
     (let p1 = p\<lparr>tooltip_body := b\<rparr>
      in ([Notify PROP_TOOLTIP_BODY]
          @ (if tooltip_freeze p1 = 0 then dbus_notify PROP_TOOLTIP_BODY p1 else []), p1))"

definition status_notifier_item_set_tooltip ::
    "string option \<Rightarrow> string option \<Rightarrow> string option \<Rightarrow> action" where
  "status_notifier_item_set_tooltip name t b =
     and_then (\<lambda>p. ([], p\<lparr>tooltip_freeze := tooltip_freeze p + 1\<rparr>))
    (and_then (status_notifier_item_set_from_icon_name STATUS_NOTIFIER_TOOLTIP_ICON name)
    (and_then (status_notifier_item_set_tooltip_title t)
    (and_then (status_notifier_item_set_tooltip_body b)
              status_notifier_item_thaw_tooltip)))"

definition status_notifier_item_set_tooltip_with_pixbuf ::
    "GdkPixbuf option \<Rightarrow> string option \<Rightarrow> string option \<Rightarrow> action" where
  "status_notifier_item_set_tooltip_with_pixbuf pb t b =
     and_then (\<lambda>p. ([], p\<lparr>tooltip_freeze := tooltip_freeze p + 1\<rparr>))
    (and_then (status_notifier_item_set_from_pixbuf STATUS_NOTIFIER_TOOLTIP_ICON pb)
    (and_then (status_notifier_item_set_tooltip_title t)
    (and_then (status_notifier_item_set_tooltip_body b)
              status_notifier_item_thaw_tooltip)))"


section \<open>Interface adapter: method calls and property reads\<close>

subsection \<open>Inbound method calls\<close>

text \<open>
  A C string is the characters before the first NUL. \<open>peek\<close> is \<^verbatim>\<open>(guchar) *s\<close>: the code
  of the first character, or the terminating 0.
\<close>

definition c_str :: "string \<Rightarrow> string" where
  "c_str s = takeWhile (\<lambda>c. c \<noteq> CHR 0x00) s"

fun peek :: "string \<Rightarrow> nat" where
  "peek [] = 0"
| "peek (c # _) = of_char c"

text \<open>GLib's macro \<^verbatim>\<open>TOLOWER\<close>: \<^verbatim>\<open>ISUPPER (c) ? (c) - 'A' + 'a' : (c)\<close>.\<close>

definition TOLOWER :: "nat \<Rightarrow> nat" where
  "TOLOWER c = (if 65 \<le> c \<and> c \<le> 90 then c - 65 + 97 else c)"

text \<open>
  GLib's \<^verbatim>\<open>g_ascii_strcasecmp\<close>: while neither string has ended, compare the lower-cased
  characters and return their difference when they differ; at the end return the
  difference of the characters reached.
\<close>

function g_ascii_strcasecmp :: "string \<Rightarrow> string \<Rightarrow> int" where
  "g_ascii_strcasecmp s1 s2 =
     (if peek s1 \<noteq> 0 \<and> peek s2 \<noteq> 0
      then (let c1 = TOLOWER (peek s1); c2 = TOLOWER (peek s2)
            in if c1 \<noteq> c2 then int c1 - int c2
               else g_ascii_strcasecmp (tl s1) (tl s2))
      else int (peek s1) - int (peek s2))"
  by pat_completeness auto
termination
proof (relation "measure (\<lambda>(s1, s2). length s1)")
  show "wf (measure (\<lambda>(s1, s2). length s1))" by simp
next
  fix s1 s2 :: string and x xa :: nat
  assume "peek s1 \<noteq> 0 \<and> peek s2 \<noteq> 0"
  then have "s1 \<noteq> []" by (cases s1) auto
  then show "((tl s1, tl s2), (s1, s2)) \<in> measure (\<lambda>(s1, s2). length s1)"
    by (cases s1) auto
qed

declare g_ascii_strcasecmp.simps [simp del]

text \<open>
  The parameters of an inbound call, which the bus library has checked against the
  interface description: two integers, or an integer and a string.
\<close>

datatype method_params = Params_ii "32 word" "32 word" | Params_is "32 word" string

text \<open>
  \<^verbatim>\<open>method_call\<close> reads the item only to emit its signals, so it returns effects alone.
  \<^verbatim>\<open>g_variant_get\<close> on parameters of another type than its format string is a
  programming error, which GLib reports with a critical message. \<open>emit_xy\<close> is the end of
  the function, shared by the three methods that take two coordinates.
\<close>

definition emit_xy :: "(32 word \<Rightarrow> 32 word \<Rightarrow> effect) \<Rightarrow> method_params \<Rightarrow> effect list" where
  "emit_xy signal params =
     (case params of
        Params_ii x y \<Rightarrow> [signal x y, ReturnValue]
      | Params_is _ _ \<Rightarrow> [Critical])"

definition method_call :: "string \<Rightarrow> method_params \<Rightarrow> effect list" where
  "method_call method params =
     (if method = ''ContextMenu'' then emit_xy SignalContextMenu params
      else if method = ''Activate'' then emit_xy SignalActivate params
      else if method = ''SecondaryActivate'' then emit_xy SignalSecondaryActivate params
      else if method = ''Scroll'' then
        (case params of
           Params_is delta s_orientation \<Rightarrow>
             (let orientation =
                    (if g_ascii_strcasecmp s_orientation ''vertical'' = 0
                     then STATUS_NOTIFIER_SCROLL_ORIENTATION_VERTICAL
                     else STATUS_NOTIFIER_SCROLL_ORIENTATION_HORIZONTAL)
              in [SignalScroll delta orientation, ReturnValue])
         | Params_ii _ _ \<Rightarrow> [Critical])
      else [Critical])"

subsection \<open>Icon codec\<close>

datatype byte_order = G_LITTLE_ENDIAN | G_BIG_ENDIAN

text \<open>GLib's \<^verbatim>\<open>GUINT32_SWAP_LE_BE\<close>, which is \<^verbatim>\<open>GUINT_TO_BE\<close> on a little-endian host.\<close>

definition GUINT32_SWAP_LE_BE :: "32 word \<Rightarrow> 32 word" where
  "GUINT32_SWAP_LE_BE val =
     push_bit 24 (val AND 0x000000ff) OR push_bit 8 (val AND 0x0000ff00)
     OR drop_bit 8 (val AND 0x00ff0000) OR drop_bit 24 (val AND 0xff000000)"

text \<open>The four bytes of a 32-bit word in memory, lowest address first.\<close>

fun word_bytes :: "byte_order \<Rightarrow> 32 word \<Rightarrow> 8 word list" where
  "word_bytes G_LITTLE_ENDIAN w =
     [ucast w, ucast (drop_bit 8 w), ucast (drop_bit 16 w), ucast (drop_bit 24 w)]"
| "word_bytes G_BIG_ENDIAN w =
     [ucast (drop_bit 24 w), ucast (drop_bit 16 w), ucast (drop_bit 8 w), ucast w]"

text \<open>
  The cairo image surface after painting: its stride in bytes and its pixel memory, which
  the source reads and writes through a \<^verbatim>\<open>guint *\<close>, so the memory is a list of 32-bit
  words; its bytes are those of the words in the host's byte order. Creating and painting
  the surface is cairo's and gdk's work: it is the parameter \<open>paint\<close> of the codec.
\<close>

record cairo_surface =
  surface_stride :: int
  surface_data :: "32 word list"

text \<open>gdk returns \<open>-1\<close> for the width and the height of a null pixbuf.\<close>

definition gdk_pixbuf_get_width :: "GdkPixbuf option \<Rightarrow> int" where
  "gdk_pixbuf_get_width pb = (case pb of None \<Rightarrow> - 1 | Some b \<Rightarrow> pixbuf_width b)"

definition gdk_pixbuf_get_height :: "GdkPixbuf option \<Rightarrow> int" where
  "gdk_pixbuf_get_height pb = (case pb of None \<Rightarrow> - 1 | Some b \<Rightarrow> pixbuf_height b)"

text \<open>The loop \<^verbatim>\<open>for (i = 0; i < max; ++i) data[i] = GUINT_TO_BE (data[i])\<close>.\<close>

function swap_loop :: "nat \<Rightarrow> nat \<Rightarrow> 32 word list \<Rightarrow> 32 word list" where
  "swap_loop i max_i data =
     (if i < max_i then swap_loop (i + 1) max_i (data[i := GUINT32_SWAP_LE_BE (data ! i)])
      else data)"
  by pat_completeness auto
termination
  by (relation "measure (\<lambda>(i, max_i, data). max_i - i)") auto

declare swap_loop.simps [simp del]

type_synonym pixmap = "int \<times> int \<times> 8 word list"

text \<open>
  The result is the builder of an array of pixmaps, or the null pointer. The loop exists
  only when the source is compiled for a little-endian host. The casts to \<^verbatim>\<open>guint\<close> and
  to \<^verbatim>\<open>gsize\<close> are written out.
\<close>

definition get_builder_for_icon_pixmap ::
    "byte_order \<Rightarrow> (GdkPixbuf option \<Rightarrow> int \<Rightarrow> int \<Rightarrow> cairo_surface) \<Rightarrow> StatusNotifierIcon
     \<Rightarrow> StatusNotifierItemPrivate \<Rightarrow> pixmap list option" where
  "get_builder_for_icon_pixmap order paint i p =
     (if \<not> has_pixbuf (icon p i) then None
      else
        let width = gdk_pixbuf_get_width (pixbuf (icon p i));
            height = gdk_pixbuf_get_height (pixbuf (icon p i));
            surface = paint (pixbuf (icon p i)) width height;
            stride = surface_stride surface;
            data = surface_data surface;
            data1 = (if order = G_LITTLE_ENDIAN
                     then swap_loop 0 (nat ((stride * height) mod 2 ^ 32) div 4) data
                     else data)
        in Some [(width, height,
                  take (nat ((stride * height) mod 2 ^ 64))
                       (concat (map (word_bytes order) data1)))])"

subsection \<open>Property reads\<close>

text \<open>
  The values \<^verbatim>\<open>g_variant_new\<close> is asked to build, by format string. For \<^verbatim>\<open>"s"\<close> the
  model keeps the pointer it is given, which may be null: GLib requires a string there.
  For the array \<^verbatim>\<open>"a(iiay)"\<close> GLib documents that a null builder gives the empty array.
\<close>

datatype GVariant =
    GVariant_s "string option"
  | GVariant_i "32 word"
  | GVariant_b bool
  | GVariant_o string
  | GVariant_a_iiay "pixmap list"
  | GVariant_sa_iiay_ss string "pixmap list" string string

definition or_empty :: "string option \<Rightarrow> string" where
  "or_empty s = (case s of None \<Rightarrow> [] | Some x \<Rightarrow> x)"

definition builder_array :: "pixmap list option \<Rightarrow> pixmap list" where
  "builder_array b = (case b of None \<Rightarrow> [] | Some xs \<Rightarrow> xs)"

text \<open>
  \<^verbatim>\<open>get_prop\<close>, compiled without the dbusmenu support (\<^verbatim>\<open>USE_DBUSMENU\<close> is 0): the
  structured menu is an external collaborator. The result \<open>None\<close> is the null pointer of
  \<^verbatim>\<open>g_return_val_if_reached\<close>.
\<close>

definition get_prop ::
    "byte_order \<Rightarrow> (GdkPixbuf option \<Rightarrow> int \<Rightarrow> int \<Rightarrow> cairo_surface) \<Rightarrow> string
     \<Rightarrow> StatusNotifierItemPrivate \<Rightarrow> GVariant option" where
  "get_prop order paint property p =
     (if property = ''Id'' then Some (GVariant_s (id_str p))
      else if property = ''Category'' then
        Some (GVariant_s (Some (s_category ! category_value (category p))))
      else if property = ''Title'' then Some (GVariant_s (Some (or_empty (title p))))
      else if property = ''Status'' then
        Some (GVariant_s (Some (s_status ! status_value (status p))))
      else if property = ''WindowId'' then Some (GVariant_i (window_id p))
      else if property = ''IconName'' then
        Some (GVariant_s (Some
          (if \<not> has_pixbuf (icon p STATUS_NOTIFIER_ICON)
           then or_empty (icon_name (icon p STATUS_NOTIFIER_ICON)) else [])))
      else if property = ''IconPixmap'' then
        Some (GVariant_a_iiay (builder_array
          (get_builder_for_icon_pixmap order paint STATUS_NOTIFIER_ICON p)))
      else if property = ''OverlayIconName'' then
        Some (GVariant_s (Some
          (if \<not> has_pixbuf (icon p STATUS_NOTIFIER_OVERLAY_ICON)
           then or_empty (icon_name (icon p STATUS_NOTIFIER_OVERLAY_ICON)) else [])))
      else if property = ''OverlayIconPixmap'' then
        Some (GVariant_a_iiay (builder_array
          (get_builder_for_icon_pixmap order paint STATUS_NOTIFIER_OVERLAY_ICON p)))
      else if property = ''AttentionIconName'' then
        Some (GVariant_s (Some
          (if \<not> has_pixbuf (icon p STATUS_NOTIFIER_ATTENTION_ICON)
           then or_empty (icon_name (icon p STATUS_NOTIFIER_ATTENTION_ICON)) else [])))
      else if property = ''AttentionIconPixmap'' then
        Some (GVariant_a_iiay (builder_array
          (get_builder_for_icon_pixmap order paint STATUS_NOTIFIER_ATTENTION_ICON p)))
      else if property = ''AttentionMovieName'' then
        Some (GVariant_s (Some (or_empty (attention_movie_name p))))
      else if property = ''ToolTip'' then
        (if \<not> has_pixbuf (icon p STATUS_NOTIFIER_TOOLTIP_ICON)
         then Some (GVariant_sa_iiay_ss
                (or_empty (icon_name (icon p STATUS_NOTIFIER_TOOLTIP_ICON)))
                (builder_array None)
                (or_empty (tooltip_title p)) (or_empty (tooltip_body p)))
         else Some (GVariant_sa_iiay_ss []
                (builder_array (get_builder_for_icon_pixmap order paint
                                  STATUS_NOTIFIER_TOOLTIP_ICON p))
                (or_empty (tooltip_title p)) (or_empty (tooltip_body p))))
      else if property = ''ItemIsMenu'' then Some (GVariant_b (item_is_menu p))
      else if property = ''Menu'' then Some (GVariant_o ''/NO_DBUSMENU'')
      else None)"


section \<open>Registration state machine\<close>

text \<open>
  The handles that the bus library returns (the id of a name watch, of a signal handler,
  of an owned name, of a registered object) and the answers of the peers are inputs of
  the functions that receive them. A handle of 0 is the library's "none".
\<close>

definition dbus_free :: action where
  "dbus_free p =
     (let e1 = (if dbus_watch_id p > 0 then [UnwatchName (dbus_watch_id p)] else []);
          p1 = (if dbus_watch_id p > 0 then p\<lparr>dbus_watch_id := 0\<rparr> else p);
          e2 = (if dbus_sid p1 > 0 then [SignalHandlerDisconnect (dbus_sid p1)] else []);
          p2 = (if dbus_sid p1 > 0 then p1\<lparr>dbus_sid := 0\<rparr> else p1);
          e3 = (if dbus_owner_id p2 > 0 then [UnownName (dbus_owner_id p2)] else []);
          p3 = (if dbus_owner_id p2 > 0 then p2\<lparr>dbus_owner_id := 0\<rparr> else p2);
          e4 = (case dbus_proxy p3 of None \<Rightarrow> [] | Some proxy \<Rightarrow> [UnrefProxy proxy]);
          p4 = (if dbus_proxy p3 \<noteq> None then p3\<lparr>dbus_proxy := None\<rparr> else p3);
          e5 = (if dbus_reg_id p4 > 0 then [UnregisterObject (dbus_reg_id p4)] else []);
          p5 = (if dbus_reg_id p4 > 0 then p4\<lparr>dbus_reg_id := 0\<rparr> else p4);
          e6 = (case dbus_conn p5 of None \<Rightarrow> [] | Some conn \<Rightarrow> [UnrefConnection conn]);
          p6 = (if dbus_conn p5 \<noteq> None then p5\<lparr>dbus_conn := None\<rparr> else p5)
      in (e1 @ e2 @ e3 @ e4 @ e5 @ e6, p6))"

definition dbus_failed :: "StatusNotifierError \<Rightarrow> bool \<Rightarrow> action" where
  "dbus_failed error fatal =
     and_then dbus_free
       (\<lambda>p. if fatal
            then ([Notify PROP_STATE, SignalRegistrationFailed error],
                  p\<lparr>state := STATUS_NOTIFIER_STATE_FAILED\<rparr>)
            else ([SignalRegistrationFailed error], p))"

text \<open>
  \<open>reg\<close> is what \<^verbatim>\<open>g_dbus_connection_register_object\<close> returns: the id of the
  registration, or 0 with an error of the bus library.
\<close>

definition bus_acquired :: "GDBusConnection option \<Rightarrow> nat \<Rightarrow> action" where
  "bus_acquired conn reg =
     and_then (\<lambda>p. ([RegisterObject], p\<lparr>dbus_reg_id := reg\<rparr>))
       (\<lambda>p. if dbus_reg_id p = 0 then dbus_failed BUS_ERROR True p
            else ([], p\<lparr>dbus_conn := conn\<rparr>))"

text \<open>\<open>ok\<close> says whether \<^verbatim>\<open>g_dbus_proxy_call_finish\<close> returned a value.\<close>

definition register_item_cb :: "bool \<Rightarrow> action" where
  "register_item_cb ok p =
     (if \<not> ok then dbus_failed BUS_ERROR True p
      else ([Notify PROP_STATE], p\<lparr>state := STATUS_NOTIFIER_STATE_REGISTERED\<rparr>))"

text \<open>
  A call on a null proxy is refused by the bus library with a critical message, and so is
  the \<^verbatim>\<open>g_object_unref\<close> of a null pointer.
\<close>

definition name_acquired :: "string option \<Rightarrow> action" where
  "name_acquired name p =
     ((case dbus_proxy p of
         None \<Rightarrow> [Critical, Critical]
       | Some proxy \<Rightarrow> [ProxyCall ''RegisterStatusNotifierItem'' name, UnrefProxy proxy]),
      p\<lparr>dbus_proxy := None\<rparr>)"

definition name_lost :: "GDBusConnection option \<Rightarrow> action" where
  "name_lost conn =
     dbus_failed (if conn = None then STATUS_NOTIFIER_ERROR_NO_CONNECTION
                  else STATUS_NOTIFIER_ERROR_NO_NAME) True"

text \<open>
  \<open>flatpak_info\<close> is what \<^verbatim>\<open>g_file_test ("/.flatpak-info", G_FILE_TEST_EXISTS)\<close> answers
  when it is asked. The third component is the returned \<^verbatim>\<open>gboolean\<close>.
\<close>

definition should_register_name ::
    "bool \<Rightarrow> StatusNotifierItemPrivate \<Rightarrow> effect list \<times> StatusNotifierItemPrivate \<times> bool" where
  "should_register_name flatpak_info p =
     (if register_bus_name p = - 1
      then (let p1 = p\<lparr>register_bus_name := (if \<not> flatpak_info then 1 else 0)\<rparr>
            in ([FileTest ''/.flatpak-info'', Notify PROP_REGISTER_NAME_ON_BUS], p1,
                register_bus_name p1 \<noteq> 0))
      else ([], p, register_bus_name p \<noteq> 0))"

text \<open>
  What the process and the bus answer during \<^verbatim>\<open>dbus_reg_item\<close>: the file test, the
  process id, the id of the object registration and the id of the owned name.
\<close>

record bus_answers =
  flatpak_info :: bool
  pid :: nat
  register_object_id :: nat
  own_name_id :: nat

text \<open>
  The static counter \<^verbatim>\<open>uniq_id\<close> is shared by all the items of the process: it is passed
  in and returned. The name requested is printed from the process id and the incremented
  counter, which the effect \<open>OwnName\<close> carries.
\<close>

definition dbus_reg_item ::
    "bus_answers \<Rightarrow> 32 word \<Rightarrow> StatusNotifierItemPrivate
     \<Rightarrow> effect list \<times> StatusNotifierItemPrivate \<times> 32 word" where
  "dbus_reg_item bus uniq_id p =
     (case should_register_name (flatpak_info bus) p of (e0, p0, claim) \<Rightarrow>
        if \<not> claim then
          (case bus_acquired (map_option proxy_connection (dbus_proxy p0))
                  (register_object_id bus) p0 of (e1, p1) \<Rightarrow>
           case name_acquired (map_option unique_name (dbus_conn p1)) p1 of (e2, p2) \<Rightarrow>
             (e0 @ e1 @ e2, p2, uniq_id))
        else
          (e0 @ [OwnName (pid bus) (uniq_id + 1)],
           p0\<lparr>dbus_owner_id := own_name_id bus\<rparr>, uniq_id + 1))"

definition watcher_signal ::
    "string \<Rightarrow> bus_answers \<Rightarrow> 32 word \<Rightarrow> StatusNotifierItemPrivate
     \<Rightarrow> effect list \<times> StatusNotifierItemPrivate \<times> 32 word" where
  "watcher_signal signal bus uniq_id p =
     (if signal = ''StatusNotifierHostRegistered''
      then (case dbus_reg_item bus uniq_id (p\<lparr>dbus_sid := 0\<rparr>) of (e, p1, u) \<Rightarrow>
              (SignalHandlerDisconnect (dbus_sid p) # e, p1, u))
      else ([], p, uniq_id))"

text \<open>
  \<open>result\<close> is the proxy that \<^verbatim>\<open>g_dbus_proxy_new_for_bus_finish\<close> returns, \<open>host\<close> is the
  cached property IsStatusNotifierHostRegistered (\<open>None\<close> when the proxy has no value for
  it), \<open>sid\<close> is the handler id that \<^verbatim>\<open>g_signal_connect\<close> returns.
\<close>

definition proxy_cb ::
    "GDBusProxy option \<Rightarrow> bool option \<Rightarrow> nat \<Rightarrow> bus_answers \<Rightarrow> 32 word
     \<Rightarrow> StatusNotifierItemPrivate \<Rightarrow> effect list \<times> StatusNotifierItemPrivate \<times> 32 word" where
  "proxy_cb result host sid bus uniq_id p =
     (let p1 = p\<lparr>dbus_proxy := result\<rparr>
      in if dbus_proxy p1 = None
         then (case dbus_failed BUS_ERROR True p1 of (e, p2) \<Rightarrow> (e, p2, uniq_id))
         else if host = None \<or> host = Some False
         then (let proxy = dbus_proxy p1
               in case dbus_failed STATUS_NOTIFIER_ERROR_NO_HOST False
                         (p1\<lparr>dbus_proxy := None\<rparr>) of (e, p2) \<Rightarrow>
                    (e @ [SignalConnect sid],
                     p2\<lparr>dbus_proxy := proxy, dbus_sid := sid\<rparr>, uniq_id))
         else dbus_reg_item bus uniq_id p1)"

definition watcher_appeared :: action where
  "watcher_appeared p = ([UnwatchName (dbus_watch_id p), ProxyNew], p\<lparr>dbus_watch_id := 0\<rparr>)"

definition watcher_vanished :: action where
  "watcher_vanished p =
     (let id = dbus_watch_id p
      in case dbus_failed STATUS_NOTIFIER_ERROR_NO_WATCHER False (p\<lparr>dbus_watch_id := 0\<rparr>) of
           (e, p1) \<Rightarrow> (e, p1\<lparr>dbus_watch_id := id\<rparr>))"

text \<open>\<open>watch\<close> is the id that \<^verbatim>\<open>g_bus_watch_name\<close> returns.\<close>

definition status_notifier_item_register :: "nat \<Rightarrow> action" where
  "status_notifier_item_register watch p =
     (if state p = STATUS_NOTIFIER_STATE_REGISTERING
         \<or> state p = STATUS_NOTIFIER_STATE_REGISTERED
      then ([], p)
      else ([WatchName],
            p\<lparr>state := STATUS_NOTIFIER_STATE_REGISTERING, dbus_watch_id := watch\<rparr>))"

text \<open>
  The item as \<^verbatim>\<open>g_object_new\<close> leaves it when no property is given: the private structure
  is zero-filled, and the construct properties get their defaults (no id, the first
  category, \<open>-1\<close> for register-name-on-bus).
\<close>

definition new_item :: StatusNotifierItemPrivate where
  "new_item =
     \<lparr>id_str = None, category = STATUS_NOTIFIER_CATEGORY_APPLICATION_STATUS, title = None,
      status = STATUS_NOTIFIER_STATUS_PASSIVE,
      icon = (\<lambda>_. \<lparr>has_pixbuf = False, icon_ptr = null_ptr\<rparr>),
      attention_movie_name = None, tooltip_title = None, tooltip_body = None,
      window_id = 0, item_is_menu = False, tooltip_freeze = 0,
      state = STATUS_NOTIFIER_STATE_NOT_REGISTERED,
      dbus_watch_id = 0, dbus_sid = 0, dbus_owner_id = 0, dbus_reg_id = 0,
      register_bus_name = - 1, dbus_proxy = None, dbus_conn = None\<rparr>"

section \<open>Callers: the public calls and the callbacks of the bus\<close>

text \<open>
  A call of the public interface that changes the item; \<open>Register\<close> carries the id that
  \<^verbatim>\<open>g_bus_watch_name\<close> would return.
\<close>

datatype api_call =
    Set_from_pixbuf StatusNotifierIcon "GdkPixbuf option"
  | Set_from_icon_name StatusNotifierIcon "string option"
  | Set_attention_movie_name "string option"
  | Set_title "string option"
  | Set_status StatusNotifierStatus
  | Set_window_id "32 word"
  | Set_item_is_menu bool
  | Freeze_tooltip
  | Thaw_tooltip
  | Set_tooltip "string option" "string option" "string option"
  | Set_tooltip_with_pixbuf "GdkPixbuf option" "string option" "string option"
  | Set_tooltip_title "string option"
  | Set_tooltip_body "string option"
  | Set_context_menu
  | Register nat

fun call :: "api_call \<Rightarrow> action" where
  "call (Set_from_pixbuf i pb) = status_notifier_item_set_from_pixbuf i pb"
| "call (Set_from_icon_name i n) = status_notifier_item_set_from_icon_name i n"
| "call (Set_attention_movie_name n) = status_notifier_item_set_attention_movie_name n"
| "call (Set_title t) = status_notifier_item_set_title t"
| "call (Set_status s) = status_notifier_item_set_status s"
| "call (Set_window_id w) = status_notifier_item_set_window_id w"
| "call (Set_item_is_menu b) = status_notifier_item_set_item_is_menu b"
| "call Freeze_tooltip = status_notifier_item_freeze_tooltip"
| "call Thaw_tooltip = status_notifier_item_thaw_tooltip"
| "call (Set_tooltip n t b) = status_notifier_item_set_tooltip n t b"
| "call (Set_tooltip_with_pixbuf pb t b) = status_notifier_item_set_tooltip_with_pixbuf pb t b"
| "call (Set_tooltip_title t) = status_notifier_item_set_tooltip_title t"
| "call (Set_tooltip_body b) = status_notifier_item_set_tooltip_body b"
| "call Set_context_menu = status_notifier_item_set_context_menu"
| "call (Register watch) = status_notifier_item_register watch"

fun calls :: "api_call list \<Rightarrow> action" where
  "calls [] = (\<lambda>p. ([], p))"
| "calls (c # cs) = and_then (call c) (calls cs)"

text \<open>The calls that change one of the four fields of the tooltip.\<close>

fun tooltip_call :: "api_call \<Rightarrow> bool" where
  "tooltip_call (Set_from_pixbuf i _) = (i = STATUS_NOTIFIER_TOOLTIP_ICON)"
| "tooltip_call (Set_from_icon_name i _) = (i = STATUS_NOTIFIER_TOOLTIP_ICON)"
| "tooltip_call (Set_tooltip _ _ _) = True"
| "tooltip_call (Set_tooltip_with_pixbuf _ _ _) = True"
| "tooltip_call (Set_tooltip_title _) = True"
| "tooltip_call (Set_tooltip_body _) = True"
| "tooltip_call _ = False"

text \<open>A callback that the bus library runs on the item, with what the library passes to it.\<close>

datatype callback =
    Watcher_appeared
  | Watcher_vanished
  | Proxy_cb "GDBusProxy option" "bool option" nat
  | Watcher_signal string
  | Bus_acquired GDBusConnection nat
  | Name_acquired string
  | Name_lost "GDBusConnection option"
  | Register_item_cb bool

fun run_callback ::
    "bus_answers \<Rightarrow> callback \<Rightarrow> 32 word \<Rightarrow> StatusNotifierItemPrivate
     \<Rightarrow> effect list \<times> StatusNotifierItemPrivate \<times> 32 word" where
  "run_callback bus Watcher_appeared u p = (case watcher_appeared p of (e, p1) \<Rightarrow> (e, p1, u))"
| "run_callback bus Watcher_vanished u p = (case watcher_vanished p of (e, p1) \<Rightarrow> (e, p1, u))"
| "run_callback bus (Proxy_cb result host sid) u p = proxy_cb result host sid bus u p"
| "run_callback bus (Watcher_signal s) u p = watcher_signal s bus u p"
| "run_callback bus (Bus_acquired conn reg) u p =
     (case bus_acquired (Some conn) reg p of (e, p1) \<Rightarrow> (e, p1, u))"
| "run_callback bus (Name_acquired name) u p =
     (case name_acquired (Some name) p of (e, p1) \<Rightarrow> (e, p1, u))"
| "run_callback bus (Name_lost conn) u p = (case name_lost conn p of (e, p1) \<Rightarrow> (e, p1, u))"
| "run_callback bus (Register_item_cb ok) u p =
     (case register_item_cb ok p of (e, p1) \<Rightarrow> (e, p1, u))"

text \<open>
  The process around one item: the item, the static counter \<^verbatim>\<open>uniq_id\<close>, and the
  asynchronous requests of the item that the bus has not answered yet, which the source
  keeps nowhere: the proxies asked for with \<^verbatim>\<open>g_dbus_proxy_new_for_bus\<close> (completed by
  \<^verbatim>\<open>proxy_cb\<close>) and the calls of RegisterStatusNotifierItem made with
  \<^verbatim>\<open>g_dbus_proxy_call\<close> (completed by \<^verbatim>\<open>register_item_cb\<close>).
\<close>

record process =
  item :: StatusNotifierItemPrivate
  uniq :: "32 word"
  proxy_requests :: nat
  register_calls :: nat

text \<open>The requests that a list of effects starts.\<close>

fun proxy_news :: "effect list \<Rightarrow> nat" where
  "proxy_news [] = 0"
| "proxy_news (ProxyNew # es) = Suc (proxy_news es)"
| "proxy_news (_ # es) = proxy_news es"

fun proxy_calls :: "effect list \<Rightarrow> nat" where
  "proxy_calls [] = 0"
| "proxy_calls (ProxyCall _ _ # es) = Suc (proxy_calls es)"
| "proxy_calls (_ # es) = proxy_calls es"

text \<open>
  The library runs the two callbacks of a name watch only while the watch exists, the
  handler of the watcher's signals only while it is connected to a proxy, the three
  callbacks of an owned name only while the name is owned or requested, and the
  completion of an asynchronous request once for every request that was made.
\<close>

fun armed :: "callback \<Rightarrow> process \<Rightarrow> bool" where
  "armed Watcher_appeared s = (dbus_watch_id (item s) > 0)"
| "armed Watcher_vanished s = (dbus_watch_id (item s) > 0)"
| "armed (Watcher_signal _) s = (dbus_sid (item s) > 0 \<and> dbus_proxy (item s) \<noteq> None)"
| "armed (Bus_acquired _ _) s = (dbus_owner_id (item s) > 0)"
| "armed (Name_acquired _) s = (dbus_owner_id (item s) > 0)"
| "armed (Name_lost _) s = (dbus_owner_id (item s) > 0)"
| "armed (Proxy_cb _ _ _) s = (proxy_requests s > 0)"
| "armed (Register_item_cb _) s = (register_calls s > 0)"

text \<open>The request that a callback completes.\<close>

fun completes_proxy :: "callback \<Rightarrow> nat" where
  "completes_proxy (Proxy_cb _ _ _) = 1"
| "completes_proxy _ = 0"

fun completes_call :: "callback \<Rightarrow> nat" where
  "completes_call (Register_item_cb _) = 1"
| "completes_call _ = 0"

text \<open>
  The main loop delivers a callback when it is armed, and drops it otherwise. A delivered
  completion takes its request away, and the requests that the callback makes are added.
\<close>

definition deliver :: "bus_answers \<Rightarrow> callback \<Rightarrow> process \<Rightarrow> effect list \<times> process" where
  "deliver bus cb s =
     (if armed cb s
      then (case run_callback bus cb (uniq s) (item s) of (e, p1, u1) \<Rightarrow>
              (e, \<lparr>item = p1, uniq = u1,
                   proxy_requests = proxy_requests s - completes_proxy cb + proxy_news e,
                   register_calls = register_calls s - completes_call cb + proxy_calls e\<rparr>))
      else ([], s))"

text \<open>
  What happens to an item is a sequence of public calls and of callbacks; each callback
  comes with the answers that the process and the bus give while it runs.
\<close>

datatype step = Call api_call | Bus bus_answers callback

fun run_step :: "step \<Rightarrow> process \<Rightarrow> effect list \<times> process" where
  "run_step (Call c) s = (case call c (item s) of (e, p1) \<Rightarrow> (e, s\<lparr>item := p1\<rparr>))"
| "run_step (Bus bus cb) s = deliver bus cb s"

fun run_steps :: "step list \<Rightarrow> process \<Rightarrow> effect list \<times> process" where
  "run_steps [] s = ([], s)"
| "run_steps (st # sts) s =
     (case run_step st s of (e1, s1) \<Rightarrow>
      case run_steps sts s1 of (e2, s2) \<Rightarrow> (e1 @ e2, s2))"

text \<open>A process that holds the item and has no request under way.\<close>

definition idle :: "StatusNotifierItemPrivate \<Rightarrow> 32 word \<Rightarrow> process" where
  "idle p u = \<lparr>item = p, uniq = u, proxy_requests = 0, register_calls = 0\<rparr>"


text \<open>How often the sandbox marker is looked for among a list of effects.\<close>

fun file_tests :: "effect list \<Rightarrow> nat" where
  "file_tests [] = 0"
| "file_tests (FileTest _ # es) = Suc (file_tests es)"
| "file_tests (_ # es) = file_tests es"

text \<open>
  A batch: \<^verbatim>\<open>status_notifier_item_freeze_tooltip\<close>, then the calls, then
  \<^verbatim>\<open>status_notifier_item_thaw_tooltip\<close>.
\<close>

definition tooltip_batch :: "api_call list \<Rightarrow> action" where
  "tooltip_batch cs =
     and_then status_notifier_item_freeze_tooltip
       (and_then (calls cs) status_notifier_item_thaw_tooltip)"

text \<open>
  The flag of a slot agrees with the member of the union that is stored: a string is
  stored only when \<^verbatim>\<open>has_pixbuf\<close> is false, a pixbuf only when it is true.
\<close>

definition slot_exclusive :: "icon_slot \<Rightarrow> bool" where
  "slot_exclusive s =
     (case icon_ptr s of
        null_ptr \<Rightarrow> True
      | icon_name_ptr _ \<Rightarrow> \<not> has_pixbuf s
      | pixbuf_ptr _ \<Rightarrow> has_pixbuf s)"

definition icons_exclusive :: "StatusNotifierItemPrivate \<Rightarrow> bool" where
  "icons_exclusive p =
     list_all (\<lambda>i. slot_exclusive (icon p i))
       [STATUS_NOTIFIER_ICON, STATUS_NOTIFIER_ATTENTION_ICON, STATUS_NOTIFIER_OVERLAY_ICON,
        STATUS_NOTIFIER_TOOLTIP_ICON]"

text \<open>The DBus signal that tells the hosts that an icon has changed.\<close>

fun icon_signal :: "StatusNotifierIcon \<Rightarrow> string" where
  "icon_signal STATUS_NOTIFIER_ICON = ''NewIcon''"
| "icon_signal STATUS_NOTIFIER_ATTENTION_ICON = ''NewAttentionIcon''"
| "icon_signal STATUS_NOTIFIER_OVERLAY_ICON = ''NewOverlayIcon''"
| "icon_signal STATUS_NOTIFIER_TOOLTIP_ICON = ''NewToolTip''"

text \<open>
  The character codes of a string after its upper-case ASCII letters are replaced by the
  lower-case ones: two strings are equal up to ASCII case when these lists are equal.
\<close>

definition ascii_lower :: "string \<Rightarrow> nat list" where
  "ascii_lower s = map (\<lambda>c. TOLOWER (of_char c)) s"

text \<open>
  An instance of cairo's painting for the concrete cases below: a surface without padding
  in which every pixel has the same value, and cairo's empty error surface when a
  dimension is not positive.
\<close>

definition paint_solid :: "32 word \<Rightarrow> GdkPixbuf option \<Rightarrow> int \<Rightarrow> int \<Rightarrow> cairo_surface" where
  "paint_solid argb pb width height =
     (if width \<le> 0 \<or> height \<le> 0 then \<lparr>surface_stride = 0, surface_data = []\<rparr>
      else \<lparr>surface_stride = 4 * width, surface_data = replicate (nat (width * height)) argb\<rparr>)"





text \<open>
  One call of \<^verbatim>\<open>status_notifier_item_register\<close> followed by the callbacks of the bus
  when the watcher is first absent and then appears, the proxy reports \<open>host\<close>, a host
  registers, the name (if one was requested) is acquired and the watcher acknowledges the
  registration; then the same without the signal that a host registered, and the same
  without the appearance of the watcher.
\<close>

definition handshake ::
    "bus_answers \<Rightarrow> nat \<Rightarrow> GDBusProxy \<Rightarrow> bool option \<Rightarrow> nat \<Rightarrow> GDBusConnection \<Rightarrow> nat
     \<Rightarrow> string \<Rightarrow> step list" where
  "handshake bus w proxy host sid conn reg name =
     [Call (Register w), Bus bus Watcher_vanished, Bus bus Watcher_appeared,
      Bus bus (Proxy_cb (Some proxy) host sid),
      Bus bus (Watcher_signal ''StatusNotifierHostRegistered''),
      Bus bus (Bus_acquired conn reg), Bus bus (Name_acquired name),
      Bus bus (Register_item_cb True)]"



section \<open>Basic facts about effects and sequencing\<close>

lemma dbus_notify_unregistered:
  "state p \<noteq> STATUS_NOTIFIER_STATE_REGISTERED \<Longrightarrow> dbus_notify q p = []"
  by (simp add: dbus_notify_def)

lemma wire_append: "wire (xs @ ys) = wire xs @ wire ys"
  by (induction xs rule: wire.induct) simp_all


lemma and_then_fst: "fst (and_then f g p) = fst (f p) @ fst (g (snd (f p)))"
  by (simp add: and_then_def split: prod.splits)

lemma and_then_snd: "snd (and_then f g p) = snd (g (snd (f p)))"
  by (simp add: and_then_def split: prod.splits)

lemmas setter_defs =
  status_notifier_item_set_from_pixbuf_def status_notifier_item_set_from_icon_name_def
  status_notifier_item_set_attention_movie_name_def status_notifier_item_set_title_def
  status_notifier_item_set_status_def status_notifier_item_set_window_id_def
  status_notifier_item_set_item_is_menu_def status_notifier_item_freeze_tooltip_def
  status_notifier_item_thaw_tooltip_def status_notifier_item_set_tooltip_title_def
  status_notifier_item_set_tooltip_body_def status_notifier_item_set_tooltip_def
  status_notifier_item_set_tooltip_with_pixbuf_def status_notifier_item_set_context_menu_def
  status_notifier_item_register_def

section \<open>Wire signals and the registration state\<close>

lemma tooltip_call_state: "tooltip_call c \<Longrightarrow> state (snd (call c p)) = state p"
  by (cases c) (simp_all add: setter_defs and_then_snd free_icon_def Let_def)

lemma call_not_registered:
  "state p \<noteq> STATUS_NOTIFIER_STATE_REGISTERED \<Longrightarrow>
   state (snd (call c p)) \<noteq> STATUS_NOTIFIER_STATE_REGISTERED"
  by (cases c) (simp_all add: setter_defs and_then_snd free_icon_def Let_def)

lemma call_wire_unregistered:
  "state p \<noteq> STATUS_NOTIFIER_STATE_REGISTERED \<Longrightarrow> wire (fst (call c p)) = []"
  by (cases c)
     (simp_all add: setter_defs and_then_fst and_then_snd free_icon_def Let_def wire_append
        dbus_notify_unregistered split: option.splits)

lemma tooltip_calls_state:
  "list_all tooltip_call cs \<Longrightarrow> state (snd (calls cs p)) = state p"
  by (induction cs arbitrary: p) (simp_all add: and_then_snd tooltip_call_state)

lemma calls_wire_unregistered:
  "state p \<noteq> STATUS_NOTIFIER_STATE_REGISTERED \<Longrightarrow> wire (fst (calls cs p)) = []"
  by (induction cs arbitrary: p)
     (simp_all add: and_then_fst wire_append call_wire_unregistered call_not_registered)

lemma wire_dbus_free: "wire (fst (dbus_free p)) = []"
  by (simp add: dbus_free_def Let_def wire_append split: option.splits)

lemma wire_dbus_failed: "wire (fst (dbus_failed e f p)) = []"
  by (simp add: dbus_failed_def and_then_fst wire_append wire_dbus_free)

lemma wire_bus_acquired: "wire (fst (bus_acquired c r p)) = []"
  by (simp add: bus_acquired_def and_then_fst wire_append wire_dbus_failed)

lemma wire_name_acquired: "wire (fst (name_acquired n p)) = []"
  by (simp add: name_acquired_def split: option.splits)

lemma wire_register_item_cb: "wire (fst (register_item_cb ok p)) = []"
  by (simp add: register_item_cb_def wire_dbus_failed)

lemma wire_dbus_reg_item: "wire (fst (dbus_reg_item bus u p)) = []"
  by (simp add: dbus_reg_item_def should_register_name_def Let_def wire_append
        case_prod_beta wire_bus_acquired wire_name_acquired)

lemma wire_watcher_signal: "wire (fst (watcher_signal s bus u p)) = []"
  by (simp add: watcher_signal_def case_prod_beta wire_dbus_reg_item)

lemma wire_proxy_cb: "wire (fst (proxy_cb r h sid bus u p)) = []"
  by (simp add: proxy_cb_def Let_def wire_append case_prod_beta wire_dbus_reg_item
        wire_dbus_failed)

lemma wire_watcher_vanished: "wire (fst (watcher_vanished p)) = []"
  by (simp add: watcher_vanished_def Let_def case_prod_beta wire_dbus_failed)

lemma wire_run_callback: "wire (fst (run_callback bus cb u p)) = []"
  by (cases cb)
     (simp_all add: case_prod_beta watcher_appeared_def name_lost_def wire_watcher_vanished
        wire_proxy_cb wire_watcher_signal wire_bus_acquired wire_name_acquired
        wire_register_item_cb wire_dbus_failed)

lemma wire_deliver: "wire (fst (deliver bus cb s)) = []"
  by (simp add: deliver_def case_prod_beta wire_run_callback)

lemma wire_run_step:
  "state (item s) \<noteq> STATUS_NOTIFIER_STATE_REGISTERED \<Longrightarrow> wire (fst (run_step st s)) = []"
  by (cases st) (simp_all add: case_prod_beta call_wire_unregistered wire_deliver)

text \<open>
  C3. No DBus signal is emitted while the state is not REGISTERED: a sequence of public
  calls on an item that is not registered emits none, the callbacks of the registration
  never emit one, whether they are run directly or delivered by the main loop, and so no
  step of an item's life emits one while the item is not registered. Setting the status to NeedsAttention on a registered item
  emits exactly one signal, NewStatus with the string NeedsAttention; on an item that is
  registering it emits nothing.
\<close>

theorem no_wire_signal_unless_registered:
  "(state p \<noteq> STATUS_NOTIFIER_STATE_REGISTERED \<longrightarrow> wire (fst (calls cs p)) = [])
   \<and> wire (fst (run_callback bus cb u p)) = []
   \<and> wire (fst (deliver bus cb s)) = []
   \<and> (state (item s) \<noteq> STATUS_NOTIFIER_STATE_REGISTERED \<longrightarrow> wire (fst (run_step st s)) = [])
   \<and> wire (fst (status_notifier_item_set_status STATUS_NOTIFIER_STATUS_NEEDS_ATTENTION
              (p\<lparr>state := STATUS_NOTIFIER_STATE_REGISTERED\<rparr>)))
       = [(''NewStatus'', Some ''NeedsAttention'')]
   \<and> wire (fst (status_notifier_item_set_status STATUS_NOTIFIER_STATUS_NEEDS_ATTENTION
              (p\<lparr>state := STATUS_NOTIFIER_STATE_REGISTERING\<rparr>))) = []"
  by (simp add: calls_wire_unregistered wire_deliver wire_run_callback wire_run_step
        status_notifier_item_set_status_def
        dbus_notify_def s_status_def numeral_2_eq_2)

theorem no_wire_signal_unless_registered_witness:
  "state new_item \<noteq> STATUS_NOTIFIER_STATE_REGISTERED
   \<and> wire (fst (calls [Set_status STATUS_NOTIFIER_STATUS_NEEDS_ATTENTION,
                       Set_title (Some ''t''), Thaw_tooltip] new_item)) = []"
  using no_wire_signal_unless_registered
    [of new_item "[Set_status STATUS_NOTIFIER_STATUS_NEEDS_ATTENTION,
                       Set_title (Some ''t''), Thaw_tooltip]"]
  by (simp add: new_item_def)

section \<open>Tooltip batching\<close>

lemma call_freeze_frozen:
  assumes "tooltip_call c" "tooltip_freeze p \<noteq> 0" "tooltip_freeze p + 1 \<noteq> 0"
  shows "wire (fst (call c p)) = [] \<and> tooltip_freeze (snd (call c p)) = tooltip_freeze p"
  using assms
  by (cases c)
     (simp_all add: setter_defs and_then_fst and_then_snd free_icon_def Let_def wire_append
        word_gt_0 split: option.splits)

lemma calls_freeze_frozen:
  assumes "list_all tooltip_call cs" "tooltip_freeze p \<noteq> 0" "tooltip_freeze p + 1 \<noteq> 0"
  shows "wire (fst (calls cs p)) = [] \<and> tooltip_freeze (snd (calls cs p)) = tooltip_freeze p"
  using assms
proof (induction cs arbitrary: p)
  case Nil
  then show ?case by simp
next
  case (Cons c cs)
  from Cons.prems have c: "tooltip_call c" and cs: "list_all tooltip_call cs" by simp_all
  note step = call_freeze_frozen [OF c Cons.prems(2) Cons.prems(3)]
  have "tooltip_freeze (snd (call c p)) \<noteq> 0" "tooltip_freeze (snd (call c p)) + 1 \<noteq> 0"
    using step Cons.prems by simp_all
  from Cons.IH [OF cs this] step show ?case
    by (simp add: and_then_fst and_then_snd wire_append)
qed

lemma no_overflow:
  fixes d :: "32 word"
  assumes "unat d + 2 < 2 ^ 32"
  shows "d + 1 \<noteq> 0" "d + 1 + 1 \<noteq> 0"
proof -
  have "unat (d + 1) = unat d + 1" using assms by (simp add: unat_word_ariths)
  then show "d + 1 \<noteq> 0" by (metis Suc_eq_plus1 nat.simps(3) unat_0)
  have "unat (d + 1 + 1) = unat d + 2" using assms by (simp add: unat_word_ariths)
  then show "d + 1 + 1 \<noteq> 0" by (metis add_2_eq_Suc' nat.simps(3) unat_0)
qed

lemma tooltip_batch_wire:
  assumes "list_all tooltip_call cs" "unat (tooltip_freeze p) + 2 < 2 ^ 32"
  shows "wire (fst (and_then status_notifier_item_freeze_tooltip (calls cs) p)) = []"
    and "wire (fst (tooltip_batch cs p)) =
           (if tooltip_freeze p = 0 \<and> state p = STATUS_NOTIFIER_STATE_REGISTERED
            then [(''NewToolTip'', None)] else [])"
    and "tooltip_freeze (snd (tooltip_batch cs p)) = tooltip_freeze p"
proof -
  let ?p1 = "snd (status_notifier_item_freeze_tooltip p)"
  have f1: "tooltip_freeze ?p1 = tooltip_freeze p + 1" and s1: "state ?p1 = state p"
    and w1: "fst (status_notifier_item_freeze_tooltip p) = []"
    by (simp_all add: status_notifier_item_freeze_tooltip_def)
  have nz: "tooltip_freeze ?p1 \<noteq> 0" "tooltip_freeze ?p1 + 1 \<noteq> 0"
    using no_overflow [OF assms(2)] f1 by simp_all
  note inner = calls_freeze_frozen [OF assms(1) nz]
  let ?p2 = "snd (calls cs ?p1)"
  have f2: "tooltip_freeze ?p2 = tooltip_freeze p + 1" using inner f1 by simp
  have s2: "state ?p2 = state p" using assms(1) by (simp add: tooltip_calls_state s1)
  show "wire (fst (and_then status_notifier_item_freeze_tooltip (calls cs) p)) = []"
    using inner w1 by (simp add: and_then_fst)
  have thaw: "status_notifier_item_thaw_tooltip ?p2 =
      ((if tooltip_freeze p = 0 then dbus_notify PROP_TOOLTIP_TITLE (?p2\<lparr>tooltip_freeze := tooltip_freeze p\<rparr>) else []),
       ?p2\<lparr>tooltip_freeze := tooltip_freeze p\<rparr>)"
    using nz f1 f2 by (simp add: status_notifier_item_thaw_tooltip_def word_gt_0 Let_def)
  show "wire (fst (tooltip_batch cs p)) =
           (if tooltip_freeze p = 0 \<and> state p = STATUS_NOTIFIER_STATE_REGISTERED
            then [(''NewToolTip'', None)] else [])"
    using inner w1 s2 by (simp add: tooltip_batch_def and_then_fst and_then_snd wire_append thaw dbus_notify_def)
  show "tooltip_freeze (snd (tooltip_batch cs p)) = tooltip_freeze p"
    by (simp add: tooltip_batch_def and_then_snd thaw)
qed

lemma thaw_at_zero:
  "tooltip_freeze p = 0 \<Longrightarrow> status_notifier_item_thaw_tooltip p = ([Critical], p)"
  by (simp add: status_notifier_item_thaw_tooltip_def)

text \<open>
  C5. A batch around any number of calls that change tooltip fields emits nothing before
  its thaw, and its thaw emits exactly one NewToolTip signal when the freeze count comes
  back to zero on a registered item (and nothing when the batch is nested in another one
  or the item is not registered); the freeze count is what it was before the batch. The
  counter is a 32-bit unsigned integer, assumed not to be within two of its maximum.
  Thawing at a freeze count of zero logs a critical message and changes nothing.
\<close>

theorem tooltip_batch_emits_once:
  "(list_all tooltip_call cs \<and> unat (tooltip_freeze p) + 2 < 2 ^ 32 \<longrightarrow>
      wire (fst (and_then status_notifier_item_freeze_tooltip (calls cs) p)) = []
      \<and> wire (fst (tooltip_batch cs p)) =
           (if tooltip_freeze p = 0 \<and> state p = STATUS_NOTIFIER_STATE_REGISTERED
            then [(''NewToolTip'', None)] else [])
      \<and> tooltip_freeze (snd (tooltip_batch cs p)) = tooltip_freeze p)
   \<and> (tooltip_freeze p = 0 \<longrightarrow> status_notifier_item_thaw_tooltip p = ([Critical], p))"
  using tooltip_batch_wire [of cs p] thaw_at_zero [of p] by blast

theorem tooltip_batch_emits_once_witness:
  "list_all tooltip_call
     [Set_tooltip_title (Some ''a''), Set_tooltip_body (Some ''b''),
      Set_from_icon_name STATUS_NOTIFIER_TOOLTIP_ICON (Some ''i''),
      Set_tooltip None (Some ''c'') None]
   \<and> unat (tooltip_freeze (new_item\<lparr>state := STATUS_NOTIFIER_STATE_REGISTERED\<rparr>)) + 2 < 2 ^ 32
   \<and> wire (fst (tooltip_batch
        [Set_tooltip_title (Some ''a''), Set_tooltip_body (Some ''b''),
         Set_from_icon_name STATUS_NOTIFIER_TOOLTIP_ICON (Some ''i''),
         Set_tooltip None (Some ''c'') None]
        (new_item\<lparr>state := STATUS_NOTIFIER_STATE_REGISTERED\<rparr>))) = [(''NewToolTip'', None)]
   \<and> tooltip_freeze (new_item\<lparr>state := STATUS_NOTIFIER_STATE_REGISTERED\<rparr>) = 0
   \<and> status_notifier_item_thaw_tooltip (new_item\<lparr>state := STATUS_NOTIFIER_STATE_REGISTERED\<rparr>)
       = ([Critical], new_item\<lparr>state := STATUS_NOTIFIER_STATE_REGISTERED\<rparr>)"
  using tooltip_batch_emits_once
    [of "[Set_tooltip_title (Some ''a''), Set_tooltip_body (Some ''b''),
         Set_from_icon_name STATUS_NOTIFIER_TOOLTIP_ICON (Some ''i''),
         Set_tooltip None (Some ''c'') None]"
        "new_item\<lparr>state := STATUS_NOTIFIER_STATE_REGISTERED\<rparr>"]
  by (simp add: new_item_def)

section \<open>Registration entry point\<close>

text \<open>
  C2. \<^verbatim>\<open>status_notifier_item_register\<close> on an item that is registering or registered has
  no effect and leaves the item as it is; on an item that is not registered or has failed
  it sets the state to REGISTERING, asks the bus to watch the watcher's name and keeps the
  id of the watch, so that the two callbacks of the watch are armed.
\<close>

theorem register_noop_or_starts_watch:
  "(state p = STATUS_NOTIFIER_STATE_REGISTERING \<or> state p = STATUS_NOTIFIER_STATE_REGISTERED
      \<longrightarrow> status_notifier_item_register w p = ([], p))
   \<and> (state p = STATUS_NOTIFIER_STATE_NOT_REGISTERED \<or> state p = STATUS_NOTIFIER_STATE_FAILED
      \<longrightarrow> status_notifier_item_register w p =
            ([WatchName], p\<lparr>state := STATUS_NOTIFIER_STATE_REGISTERING, dbus_watch_id := w\<rparr>)
          \<and> (0 < w \<longrightarrow>
                armed Watcher_appeared (s\<lparr>item := snd (status_notifier_item_register w p)\<rparr>)
                \<and> armed Watcher_vanished (s\<lparr>item := snd (status_notifier_item_register w p)\<rparr>)))"
  by (auto simp add: status_notifier_item_register_def)

theorem register_noop_or_starts_watch_witness:
  "state (new_item\<lparr>state := STATUS_NOTIFIER_STATE_REGISTERED\<rparr>) = STATUS_NOTIFIER_STATE_REGISTERED
   \<and> status_notifier_item_register 7 (new_item\<lparr>state := STATUS_NOTIFIER_STATE_REGISTERED\<rparr>)
       = ([], new_item\<lparr>state := STATUS_NOTIFIER_STATE_REGISTERED\<rparr>)
   \<and> state new_item = STATUS_NOTIFIER_STATE_NOT_REGISTERED
   \<and> status_notifier_item_register 7 new_item =
        ([WatchName], new_item\<lparr>state := STATUS_NOTIFIER_STATE_REGISTERING, dbus_watch_id := 7\<rparr>)
   \<and> armed Watcher_appeared
        (idle (snd (status_notifier_item_register 7 new_item)) 0)"
  using register_noop_or_starts_watch [of "new_item\<lparr>state := STATUS_NOTIFIER_STATE_REGISTERED\<rparr>" 7]
    register_noop_or_starts_watch [of new_item 7 "idle new_item 0"]
  by (simp add: new_item_def idle_def)

section \<open>Icon slots\<close>

lemma icons_exclusive_iff: "icons_exclusive p = (\<forall>i. slot_exclusive (icon p i))"
proof
  assume a: "icons_exclusive p"
  show "\<forall>i. slot_exclusive (icon p i)"
  proof
    fix i show "slot_exclusive (icon p i)"
      using a by (cases i) (simp_all add: icons_exclusive_def)
  qed
next
  assume "\<forall>i. slot_exclusive (icon p i)"
  then show "icons_exclusive p" by (simp add: icons_exclusive_def)
qed

lemma set_from_pixbuf_exclusive:
  "icons_exclusive p \<Longrightarrow> icons_exclusive (snd (status_notifier_item_set_from_pixbuf i pb p))"
  by (auto simp add: icons_exclusive_iff status_notifier_item_set_from_pixbuf_def free_icon_def
        Let_def slot_exclusive_def split: option.splits)

lemma set_from_icon_name_exclusive:
  "icons_exclusive p \<Longrightarrow> icons_exclusive (snd (status_notifier_item_set_from_icon_name i n p))"
  by (auto simp add: icons_exclusive_iff status_notifier_item_set_from_icon_name_def free_icon_def
        Let_def slot_exclusive_def split: option.splits)

lemma icon_set_tooltip_title: "icon (snd (status_notifier_item_set_tooltip_title t p)) = icon p"
  by (simp add: status_notifier_item_set_tooltip_title_def Let_def)

lemma icon_set_tooltip_body: "icon (snd (status_notifier_item_set_tooltip_body t p)) = icon p"
  by (simp add: status_notifier_item_set_tooltip_body_def Let_def)

lemma icon_thaw: "icon (snd (status_notifier_item_thaw_tooltip p)) = icon p"
  by (simp add: status_notifier_item_thaw_tooltip_def Let_def)

lemma icons_exclusive_cong: "icon q = icon p \<Longrightarrow> icons_exclusive q = icons_exclusive p"
  by (simp add: icons_exclusive_def)

lemma call_exclusive: "icons_exclusive p \<Longrightarrow> icons_exclusive (snd (call c p))"
proof (cases c)
  case (Set_from_pixbuf i pb)
  then show "icons_exclusive p \<Longrightarrow> ?thesis" by (simp add: set_from_pixbuf_exclusive)
next
  case (Set_from_icon_name i n)
  then show "icons_exclusive p \<Longrightarrow> ?thesis" by (simp add: set_from_icon_name_exclusive)
next
  case (Set_tooltip n t b)
  assume a: "icons_exclusive p"
  have "icons_exclusive (snd (status_notifier_item_set_from_icon_name STATUS_NOTIFIER_TOOLTIP_ICON n
          (p\<lparr>tooltip_freeze := tooltip_freeze p + 1\<rparr>)))"
    using a by (intro set_from_icon_name_exclusive) (simp add: icons_exclusive_def)
  then show ?thesis
    using Set_tooltip
    by (simp add: status_notifier_item_set_tooltip_def and_then_snd
          icons_exclusive_cong [OF icon_thaw] icons_exclusive_cong [OF icon_set_tooltip_body]
          icons_exclusive_cong [OF icon_set_tooltip_title])
next
  case (Set_tooltip_with_pixbuf pb t b)
  assume a: "icons_exclusive p"
  have "icons_exclusive (snd (status_notifier_item_set_from_pixbuf STATUS_NOTIFIER_TOOLTIP_ICON pb
          (p\<lparr>tooltip_freeze := tooltip_freeze p + 1\<rparr>)))"
    using a by (intro set_from_pixbuf_exclusive) (simp add: icons_exclusive_def)
  then show ?thesis
    using Set_tooltip_with_pixbuf
    by (simp add: status_notifier_item_set_tooltip_with_pixbuf_def and_then_snd
          icons_exclusive_cong [OF icon_thaw] icons_exclusive_cong [OF icon_set_tooltip_body]
          icons_exclusive_cong [OF icon_set_tooltip_title])
qed (simp_all add: setter_defs icons_exclusive_def Let_def)

lemma icon_dbus_free: "icon (snd (dbus_free p)) = icon p"
  by (simp add: dbus_free_def Let_def)

lemma icon_dbus_failed: "icon (snd (dbus_failed e f p)) = icon p"
  by (simp add: dbus_failed_def and_then_snd icon_dbus_free)

lemma icon_bus_acquired: "icon (snd (bus_acquired c r p)) = icon p"
  by (simp add: bus_acquired_def and_then_snd icon_dbus_failed)

lemma icon_dbus_reg_item: "icon (fst (snd (dbus_reg_item bus u p))) = icon p"
  by (simp add: dbus_reg_item_def should_register_name_def name_acquired_def Let_def
        case_prod_beta icon_bus_acquired)

lemma icon_run_callback: "icon (fst (snd (run_callback bus cb u p))) = icon p"
  by (cases cb)
     (simp_all add: case_prod_beta watcher_appeared_def watcher_vanished_def name_lost_def
        name_acquired_def register_item_cb_def proxy_cb_def watcher_signal_def Let_def
        icon_dbus_failed icon_bus_acquired icon_dbus_reg_item)

lemma run_callback_exclusive:
  "icons_exclusive p \<Longrightarrow> icons_exclusive (fst (snd (run_callback bus cb u p)))"
  by (simp add: icons_exclusive_def icon_run_callback)

lemma deliver_exclusive:
  "icons_exclusive (item s) \<Longrightarrow> icons_exclusive (item (snd (deliver bus cb s)))"
  by (simp add: deliver_def case_prod_beta icons_exclusive_def icon_run_callback)

lemma new_item_exclusive: "icons_exclusive new_item"
  by (simp add: icons_exclusive_def slot_exclusive_def new_item_def)

lemma get_after_set_from_icon_name:
  "status_notifier_item_get_pixbuf i (snd (status_notifier_item_set_from_icon_name i n p)) = None"
  "status_notifier_item_get_icon_name i (snd (status_notifier_item_set_from_icon_name i n p)) = n"
  by (simp_all add: status_notifier_item_get_pixbuf_def status_notifier_item_get_icon_name_def
        status_notifier_item_set_from_icon_name_def free_icon_def Let_def split: option.splits)

lemma get_after_set_from_pixbuf:
  "status_notifier_item_get_icon_name i (snd (status_notifier_item_set_from_pixbuf i pb p)) = None"
  "status_notifier_item_get_pixbuf i (snd (status_notifier_item_set_from_pixbuf i pb p)) = pb"
  by (simp_all add: status_notifier_item_get_pixbuf_def status_notifier_item_get_icon_name_def
        status_notifier_item_set_from_pixbuf_def free_icon_def Let_def split: option.splits)

lemma getters_exclusive:
  "status_notifier_item_get_pixbuf i p = None \<or> status_notifier_item_get_icon_name i p = None"
  by (simp add: status_notifier_item_get_pixbuf_def status_notifier_item_get_icon_name_def)

text \<open>
  C6. In every icon slot the flag and the stored pointer agree, so the slot holds at most
  one of the two representations: this holds for a new item, and every public call and
  every callback of the registration keeps it. After setting an icon name the slot has no
  pixbuf and has that name; after setting a pixbuf the slot has no icon name and has that
  pixbuf; the two getters never both return something.
\<close>

theorem icon_slot_holds_one_representation:
  "(icons_exclusive p \<longrightarrow>
      icons_exclusive (snd (call c p))
      \<and> icons_exclusive (fst (snd (run_callback bus cb u p))))
   \<and> (icons_exclusive (item s) \<longrightarrow> icons_exclusive (item (snd (deliver bus cb s))))
   \<and> icons_exclusive new_item
   \<and> status_notifier_item_get_pixbuf i (snd (status_notifier_item_set_from_icon_name i n p)) = None
   \<and> status_notifier_item_get_icon_name i (snd (status_notifier_item_set_from_icon_name i n p)) = n
   \<and> status_notifier_item_get_icon_name i (snd (status_notifier_item_set_from_pixbuf i pb p)) = None
   \<and> status_notifier_item_get_pixbuf i (snd (status_notifier_item_set_from_pixbuf i pb p)) = pb
   \<and> (status_notifier_item_get_pixbuf i p = None \<or> status_notifier_item_get_icon_name i p = None)"
  using call_exclusive [of p c] run_callback_exclusive [of p bus cb u]
    deliver_exclusive [of s bus cb] new_item_exclusive
    get_after_set_from_icon_name [of i n p]
    get_after_set_from_pixbuf [of i pb p] getters_exclusive [of i p]
  by blast

theorem icon_slot_holds_one_representation_witness:
  "icons_exclusive new_item
   \<and> icons_exclusive (snd (call (Set_from_pixbuf STATUS_NOTIFIER_ICON
        (Some \<lparr>pixbuf_width = 1, pixbuf_height = 1, pixbuf_pixels = [0, 0, 0, 255]\<rparr>))
        (snd (call (Set_from_icon_name STATUS_NOTIFIER_ICON (Some ''app'')) new_item))))"
  using icon_slot_holds_one_representation
    [of "snd (call (Set_from_icon_name STATUS_NOTIFIER_ICON (Some ''app'')) new_item)"
        "Set_from_pixbuf STATUS_NOTIFIER_ICON
        (Some \<lparr>pixbuf_width = 1, pixbuf_height = 1, pixbuf_pixels = [0, 0, 0, 255]\<rparr>)"]
    icon_slot_holds_one_representation
    [of new_item "Set_from_icon_name STATUS_NOTIFIER_ICON (Some ''app'')"]
  by simp

section \<open>Setters: local notifications and wire signals\<close>

lemma notified_append: "notified (xs @ ys) = notified xs @ notified ys"
  by (induction xs rule: notified.induct) simp_all

lemma notified_dbus_notify: "notified (dbus_notify q p) = []"
  by (simp add: dbus_notify_def split: prop_id.splits)

text \<open>
  Two setters do not raise the local notification that their siblings raise, and the
  statements of this section leave both out. \<^verbatim>\<open>status_notifier_item_set_item_is_menu\<close>
  stores the flag and calls neither \<^verbatim>\<open>notify\<close> nor \<^verbatim>\<open>dbus_notify\<close>. The two icon setters
  raise one local notification, for the other property of the slot:
  \<^verbatim>\<open>status_notifier_item_set_from_pixbuf\<close> passes \<^verbatim>\<open>prop_name_from_icon[icon]\<close> to
  \<^verbatim>\<open>notify\<close>, \<^verbatim>\<open>status_notifier_item_set_from_icon_name\<close> passes
  \<^verbatim>\<open>prop_pixbuf_from_icon[icon]\<close>.
\<close>

lemma set_item_is_menu_effects:
  "status_notifier_item_set_item_is_menu b p = ([], p\<lparr>item_is_menu := b\<rparr>)"
  by (simp add: status_notifier_item_set_item_is_menu_def)

lemma set_from_pixbuf_notified:
  "notified (fst (status_notifier_item_set_from_pixbuf i pb p))
     = [prop_name_from_icon ! icon_value i]"
  by (simp add: status_notifier_item_set_from_pixbuf_def Let_def notified_append
        notified_dbus_notify split: option.splits)

lemma set_from_icon_name_notified:
  "notified (fst (status_notifier_item_set_from_icon_name i n p))
     = [prop_pixbuf_from_icon ! icon_value i]"
  by (simp add: status_notifier_item_set_from_icon_name_def Let_def notified_append
        notified_dbus_notify)

lemma icon_setters_notify_other_property:
  "notified (fst (status_notifier_item_set_from_pixbuf STATUS_NOTIFIER_ICON
      (Some \<lparr>pixbuf_width = 1, pixbuf_height = 1, pixbuf_pixels = [0, 0, 0, 255]\<rparr>) new_item)) = [PROP_MAIN_ICON_NAME]
   \<and> notified (fst (status_notifier_item_set_from_icon_name STATUS_NOTIFIER_ICON
      (Some ''mail-unread'') new_item)) = [PROP_MAIN_ICON_PIXBUF]"
  by (simp add: set_from_pixbuf_notified set_from_icon_name_notified prop_name_from_icon_def
        prop_pixbuf_from_icon_def)

lemma icon_properties_distinct:
  "prop_name_from_icon ! icon_value i \<noteq> prop_pixbuf_from_icon ! icon_value i"
  by (cases i)
     (simp_all add: prop_name_from_icon_def prop_pixbuf_from_icon_def numeral_2_eq_2
        numeral_3_eq_3)

text \<open>
  C8, as stated, fails: on a registered item \<^verbatim>\<open>status_notifier_item_set_window_id\<close> and
  \<^verbatim>\<open>status_notifier_item_set_attention_movie_name\<close> store the value and raise the local
  notification of their property, and \<^verbatim>\<open>status_notifier_item_set_item_is_menu\<close> stores the
  flag, but none of the three emits a DBus signal.
\<close>

theorem setter_without_wire_signal_counterexample:
  "state (new_item\<lparr>state := STATUS_NOTIFIER_STATE_REGISTERED\<rparr>) = STATUS_NOTIFIER_STATE_REGISTERED
   \<and> window_id (snd (status_notifier_item_set_window_id 7
        (new_item\<lparr>state := STATUS_NOTIFIER_STATE_REGISTERED\<rparr>))) = 7
   \<and> notified (fst (status_notifier_item_set_window_id 7
        (new_item\<lparr>state := STATUS_NOTIFIER_STATE_REGISTERED\<rparr>))) = [PROP_WINDOW_ID]
   \<and> wire (fst (status_notifier_item_set_window_id 7
        (new_item\<lparr>state := STATUS_NOTIFIER_STATE_REGISTERED\<rparr>))) = []
   \<and> attention_movie_name (snd (status_notifier_item_set_attention_movie_name (Some ''m.mng'')
        (new_item\<lparr>state := STATUS_NOTIFIER_STATE_REGISTERED\<rparr>))) = Some ''m.mng''
   \<and> notified (fst (status_notifier_item_set_attention_movie_name (Some ''m.mng'')
        (new_item\<lparr>state := STATUS_NOTIFIER_STATE_REGISTERED\<rparr>))) = [PROP_ATTENTION_MOVIE_NAME]
   \<and> wire (fst (status_notifier_item_set_attention_movie_name (Some ''m.mng'')
        (new_item\<lparr>state := STATUS_NOTIFIER_STATE_REGISTERED\<rparr>))) = []
   \<and> item_is_menu (snd (status_notifier_item_set_item_is_menu True
        (new_item\<lparr>state := STATUS_NOTIFIER_STATE_REGISTERED\<rparr>)))
   \<and> wire (fst (status_notifier_item_set_item_is_menu True
        (new_item\<lparr>state := STATUS_NOTIFIER_STATE_REGISTERED\<rparr>))) = []"
  by (simp add: status_notifier_item_set_item_is_menu_def status_notifier_item_set_window_id_def
        status_notifier_item_set_attention_movie_name_def)

lemma prop_name_from_icon_signal:
  "state p = STATUS_NOTIFIER_STATE_REGISTERED \<Longrightarrow>
   dbus_notify (prop_name_from_icon ! icon_value i) p = [EmitSignal (icon_signal i) None]"
  by (cases i) (simp_all add: prop_name_from_icon_def dbus_notify_def numeral_2_eq_2 numeral_3_eq_3)

lemma set_from_icon_name_wire:
  "wire (fst (status_notifier_item_set_from_icon_name i n p)) =
     (if state p = STATUS_NOTIFIER_STATE_REGISTERED
         \<and> (i \<noteq> STATUS_NOTIFIER_TOOLTIP_ICON \<or> tooltip_freeze p = 0)
      then [(icon_signal i, None)] else [])"
proof (cases "state p = STATUS_NOTIFIER_STATE_REGISTERED")
  case True
  then show ?thesis
    by (simp add: status_notifier_item_set_from_icon_name_def free_icon_def Let_def
          prop_name_from_icon_signal)
next
  case False
  then show ?thesis
    by (simp add: status_notifier_item_set_from_icon_name_def free_icon_def Let_def
          dbus_notify_unregistered)
qed

lemma set_from_pixbuf_wire:
  "wire (fst (status_notifier_item_set_from_pixbuf i pb p)) =
     (if state p = STATUS_NOTIFIER_STATE_REGISTERED
         \<and> (i \<noteq> STATUS_NOTIFIER_TOOLTIP_ICON \<or> tooltip_freeze p = 0)
      then [(icon_signal i, None)] else [])"
proof (cases "state p = STATUS_NOTIFIER_STATE_REGISTERED")
  case True
  then show ?thesis
    by (simp add: status_notifier_item_set_from_pixbuf_def free_icon_def Let_def wire_append
          prop_name_from_icon_signal split: option.splits)
next
  case False
  then show ?thesis
    by (simp add: status_notifier_item_set_from_pixbuf_def free_icon_def Let_def wire_append
          dbus_notify_unregistered split: option.splits)
qed

lemma set_title_effects:
  "fst (status_notifier_item_set_title t p) =
     Notify PROP_TITLE #
     (if state p = STATUS_NOTIFIER_STATE_REGISTERED then [EmitSignal ''NewTitle'' None] else [])"
  by (simp add: status_notifier_item_set_title_def dbus_notify_def)

lemma set_status_effects:
  "fst (status_notifier_item_set_status s p) =
     Notify PROP_STATUS #
     (if state p = STATUS_NOTIFIER_STATE_REGISTERED
      then [EmitSignal ''NewStatus'' (Some (s_status ! status_value s))] else [])"
  by (simp add: status_notifier_item_set_status_def dbus_notify_def)

lemma set_tooltip_title_effects:
  "fst (status_notifier_item_set_tooltip_title t p) =
     Notify PROP_TOOLTIP_TITLE #
     (if state p = STATUS_NOTIFIER_STATE_REGISTERED \<and> tooltip_freeze p = 0
      then [EmitSignal ''NewToolTip'' None] else [])"
  by (simp add: status_notifier_item_set_tooltip_title_def dbus_notify_def Let_def)

lemma set_tooltip_body_effects:
  "fst (status_notifier_item_set_tooltip_body t p) =
     Notify PROP_TOOLTIP_BODY #
     (if state p = STATUS_NOTIFIER_STATE_REGISTERED \<and> tooltip_freeze p = 0
      then [EmitSignal ''NewToolTip'' None] else [])"
  by (simp add: status_notifier_item_set_tooltip_body_def dbus_notify_def Let_def)

text \<open>
  C8, amended. The setters of the title, the status, the tooltip title and the tooltip
  body raise the local notification of the property they set, followed on a registered
  item by their DBus signal (NewTitle, NewStatus with the label of the new status,
  NewToolTip), the two tooltip setters only while the freeze count is zero. The two icon
  setters raise exactly one local notification, for a property of the slot they set (its
  name property or its bitmap property), and emit on a registered item the DBus signal of
  that slot, for the tooltip slot only while the freeze count is zero. The setters of the
  attention movie name and of the window id raise their local notification and nothing
  else, and the setter of item-is-menu emits no DBus signal: the interface has no signal
  for these three.
\<close>

theorem setters_notify_and_signal:
  "fst (status_notifier_item_set_title t p) =
     Notify PROP_TITLE #
     (if state p = STATUS_NOTIFIER_STATE_REGISTERED then [EmitSignal ''NewTitle'' None] else [])
   \<and> fst (status_notifier_item_set_status s p) =
     Notify PROP_STATUS #
     (if state p = STATUS_NOTIFIER_STATE_REGISTERED
      then [EmitSignal ''NewStatus'' (Some (s_status ! status_value s))] else [])
   \<and> fst (status_notifier_item_set_tooltip_title t p) =
     Notify PROP_TOOLTIP_TITLE #
     (if state p = STATUS_NOTIFIER_STATE_REGISTERED \<and> tooltip_freeze p = 0
      then [EmitSignal ''NewToolTip'' None] else [])
   \<and> fst (status_notifier_item_set_tooltip_body t p) =
     Notify PROP_TOOLTIP_BODY #
     (if state p = STATUS_NOTIFIER_STATE_REGISTERED \<and> tooltip_freeze p = 0
      then [EmitSignal ''NewToolTip'' None] else [])
   \<and> (notified (fst (status_notifier_item_set_from_icon_name i n p))
         = [prop_name_from_icon ! icon_value i]
       \<or> notified (fst (status_notifier_item_set_from_icon_name i n p))
         = [prop_pixbuf_from_icon ! icon_value i])
   \<and> wire (fst (status_notifier_item_set_from_icon_name i n p)) =
     (if state p = STATUS_NOTIFIER_STATE_REGISTERED
         \<and> (i \<noteq> STATUS_NOTIFIER_TOOLTIP_ICON \<or> tooltip_freeze p = 0)
      then [(icon_signal i, None)] else [])
   \<and> (notified (fst (status_notifier_item_set_from_pixbuf i pb p))
         = [prop_name_from_icon ! icon_value i]
       \<or> notified (fst (status_notifier_item_set_from_pixbuf i pb p))
         = [prop_pixbuf_from_icon ! icon_value i])
   \<and> wire (fst (status_notifier_item_set_from_pixbuf i pb p)) =
     (if state p = STATUS_NOTIFIER_STATE_REGISTERED
         \<and> (i \<noteq> STATUS_NOTIFIER_TOOLTIP_ICON \<or> tooltip_freeze p = 0)
      then [(icon_signal i, None)] else [])
   \<and> fst (status_notifier_item_set_attention_movie_name n p) = [Notify PROP_ATTENTION_MOVIE_NAME]
   \<and> fst (status_notifier_item_set_window_id w p) = [Notify PROP_WINDOW_ID]
   \<and> wire (fst (status_notifier_item_set_item_is_menu b p)) = []"
  using set_title_effects [of t p] set_status_effects [of s p] set_tooltip_title_effects [of t p]
    set_tooltip_body_effects [of t p] set_from_icon_name_wire [of i n p]
    set_from_pixbuf_wire [of i pb p] set_from_icon_name_notified [of i n p]
    set_from_pixbuf_notified [of i pb p]
  by (simp add: status_notifier_item_set_attention_movie_name_def
        status_notifier_item_set_window_id_def status_notifier_item_set_item_is_menu_def)

theorem setters_notify_and_signal_witness:
  "fst (status_notifier_item_set_title (Some ''T'')
          (new_item\<lparr>state := STATUS_NOTIFIER_STATE_REGISTERED\<rparr>))
     = [Notify PROP_TITLE, EmitSignal ''NewTitle'' None]
   \<and> fst (status_notifier_item_set_status STATUS_NOTIFIER_STATUS_ACTIVE
          (new_item\<lparr>state := STATUS_NOTIFIER_STATE_REGISTERED\<rparr>))
     = [Notify PROP_STATUS, EmitSignal ''NewStatus'' (Some ''Active'')]
   \<and> fst (status_notifier_item_set_tooltip_body (Some ''T'')
          (new_item\<lparr>state := STATUS_NOTIFIER_STATE_REGISTERED\<rparr>))
     = [Notify PROP_TOOLTIP_BODY, EmitSignal ''NewToolTip'' None]
   \<and> wire (fst (status_notifier_item_set_from_icon_name STATUS_NOTIFIER_OVERLAY_ICON (Some ''o'')
          (new_item\<lparr>state := STATUS_NOTIFIER_STATE_REGISTERED\<rparr>)))
     = [(''NewOverlayIcon'', None)]
   \<and> wire (fst (status_notifier_item_set_from_pixbuf STATUS_NOTIFIER_OVERLAY_ICON
          (Some \<lparr>pixbuf_width = 1, pixbuf_height = 1, pixbuf_pixels = [0, 0, 0, 255]\<rparr>)
          (new_item\<lparr>state := STATUS_NOTIFIER_STATE_REGISTERED\<rparr>)))
     = [(''NewOverlayIcon'', None)]
   \<and> fst (status_notifier_item_set_window_id 7
          (new_item\<lparr>state := STATUS_NOTIFIER_STATE_REGISTERED\<rparr>)) = [Notify PROP_WINDOW_ID]"
  using setters_notify_and_signal
    [where t = "Some ''T''" and p = "new_item\<lparr>state := STATUS_NOTIFIER_STATE_REGISTERED\<rparr>"
       and i = STATUS_NOTIFIER_OVERLAY_ICON and n = "Some ''o''" and w = 7
       and s = STATUS_NOTIFIER_STATUS_ACTIVE and pb = "Some \<lparr>pixbuf_width = 1, pixbuf_height = 1, pixbuf_pixels = [0, 0, 0, 255]\<rparr>"]
  by (simp add: new_item_def s_status_def)

section \<open>Scroll requests\<close>

lemma of_char_zero: "(of_char a :: nat) = 0 \<longleftrightarrow> a = CHR 0x00"
proof -
  have "(of_char (CHR 0x00) :: nat) = 0" by simp
  then show ?thesis by (metis of_char_eq_iff)
qed

lemma peek_zero: "peek s = 0 \<longleftrightarrow> c_str s = []"
  by (cases s) (auto simp add: c_str_def of_char_zero)

lemma strcasecmp_zero:
  "g_ascii_strcasecmp s1 s2 = 0 \<longleftrightarrow> ascii_lower (c_str s1) = ascii_lower (c_str s2)"
proof (induction s1 s2 rule: g_ascii_strcasecmp.induct)
  case (1 s1 s2)
  show ?case
  proof (cases "peek s1 \<noteq> 0 \<and> peek s2 \<noteq> 0")
    case True
    then obtain a r1 b r2 where s: "s1 = a # r1" "s2 = b # r2"
      by (cases s1; cases s2) auto
    with True have nz: "a \<noteq> CHR 0x00" "b \<noteq> CHR 0x00" by auto
    show ?thesis
    proof (cases "TOLOWER (peek s1) = TOLOWER (peek s2)")
      case eq: True
      have "g_ascii_strcasecmp s1 s2 = g_ascii_strcasecmp (tl s1) (tl s2)"
        using True eq by (subst g_ascii_strcasecmp.simps) (simp add: Let_def)
      moreover have "g_ascii_strcasecmp (tl s1) (tl s2) = 0
          \<longleftrightarrow> ascii_lower (c_str (tl s1)) = ascii_lower (c_str (tl s2))"
        using "1.IH" [OF True refl refl] eq by simp
      ultimately show ?thesis
        using s nz eq by (simp add: c_str_def ascii_lower_def)
    next
      case ne: False
      have "g_ascii_strcasecmp s1 s2 = int (TOLOWER (peek s1)) - int (TOLOWER (peek s2))"
        using True ne by (subst g_ascii_strcasecmp.simps) (simp add: Let_def)
      then show ?thesis
        using s nz ne by (simp add: c_str_def ascii_lower_def)
    qed
  next
    case False
    have "g_ascii_strcasecmp s1 s2 = int (peek s1) - int (peek s2)"
      using False by (subst g_ascii_strcasecmp.simps) auto
    moreover have "peek s1 = 0 \<or> peek s2 = 0" using False by simp
    ultimately show ?thesis
      using peek_zero [of s1] peek_zero [of s2] by (auto simp add: ascii_lower_def)
  qed
qed

lemma c_str_vertical: "c_str ''vertical'' = ''vertical''"
  by (simp add: c_str_def)

text \<open>
  C10. A Scroll request is delivered to the owner as the scroll signal with the delta it
  carries and with the vertical orientation exactly when its orientation string equals
  "vertical" up to ASCII case, and with the horizontal orientation for every other
  string; the request is then answered with the empty reply.
\<close>

theorem scroll_orientation_canonical:
  "method_call ''Scroll'' (Params_is delta s) =
     [SignalScroll delta
        (if ascii_lower (c_str s) = ascii_lower ''vertical''
         then STATUS_NOTIFIER_SCROLL_ORIENTATION_VERTICAL
         else STATUS_NOTIFIER_SCROLL_ORIENTATION_HORIZONTAL),
      ReturnValue]"
  by (simp add: method_call_def strcasecmp_zero c_str_vertical)

theorem scroll_orientation_canonical_witness:
  "method_call ''Scroll'' (Params_is 3 ''VeRtIcAl'') =
     [SignalScroll 3 STATUS_NOTIFIER_SCROLL_ORIENTATION_VERTICAL, ReturnValue]
   \<and> method_call ''Scroll'' (Params_is 3 ''HORIZONTAL'') =
     [SignalScroll 3 STATUS_NOTIFIER_SCROLL_ORIENTATION_HORIZONTAL, ReturnValue]
   \<and> method_call ''Scroll'' (Params_is 3 ''bogus'') =
     [SignalScroll 3 STATUS_NOTIFIER_SCROLL_ORIENTATION_HORIZONTAL, ReturnValue]
   \<and> method_call ''Scroll'' (Params_is 3 '''') =
     [SignalScroll 3 STATUS_NOTIFIER_SCROLL_ORIENTATION_HORIZONTAL, ReturnValue]"
  using scroll_orientation_canonical [of 3 "''VeRtIcAl''"]
    scroll_orientation_canonical [of 3 "''HORIZONTAL''"]
    scroll_orientation_canonical [of 3 "''bogus''"]
    scroll_orientation_canonical [of 3 "''''"]
  by (simp add: ascii_lower_def c_str_def TOLOWER_def)

section \<open>Icon codec\<close>







lemma encode_without_bitmap:
  "\<not> has_pixbuf (icon p i) \<Longrightarrow> get_builder_for_icon_pixmap order paint i p = None"
  by (simp add: get_builder_for_icon_pixmap_def)



section \<open>Property reads\<close>

text \<open>
  C7, as stated, fails for Id: \<^verbatim>\<open>get_prop\<close> hands the pointer \<^verbatim>\<open>priv->id\<close> to
  \<^verbatim>\<open>g_variant_new\<close> as it is, so for an item created without an id the value is built
  from a null pointer and not from the empty string.
\<close>

theorem unset_id_not_empty_counterexample:
  "id_str new_item = None
   \<and> get_prop G_LITTLE_ENDIAN (paint_solid 0) ''Id'' new_item
       = Some (GVariant_s None)
   \<and> get_prop G_LITTLE_ENDIAN (paint_solid 0) ''Id'' new_item
       \<noteq> Some (GVariant_s (Some ''''))"
  by (simp add: get_prop_def new_item_def)

text \<open>
  What a slot holds, as the public getters report it, after each of the two setters and in
  a new item. In a new item and after \<^verbatim>\<open>status_notifier_item_set_from_icon_name\<close> the flag
  \<^verbatim>\<open>has_pixbuf\<close> is false; after \<^verbatim>\<open>status_notifier_item_set_from_pixbuf\<close> it is true.
\<close>

lemma new_item_slot:
  "\<not> status_notifier_item_has_pixbuf i new_item"
  "status_notifier_item_get_icon_name i new_item = None"
  "status_notifier_item_get_pixbuf i new_item = None"
  by (simp_all add: status_notifier_item_has_pixbuf_def status_notifier_item_get_icon_name_def
        status_notifier_item_get_pixbuf_def new_item_def)

lemma set_from_icon_name_slot:
  "\<not> status_notifier_item_has_pixbuf i (snd (status_notifier_item_set_from_icon_name i n p))"
  "status_notifier_item_get_icon_name i (snd (status_notifier_item_set_from_icon_name i n p)) = n"
  "status_notifier_item_get_pixbuf i (snd (status_notifier_item_set_from_icon_name i n p)) = None"
  by (simp_all add: status_notifier_item_has_pixbuf_def status_notifier_item_get_icon_name_def
        status_notifier_item_get_pixbuf_def status_notifier_item_set_from_icon_name_def
        free_icon_def Let_def split: option.splits)

lemma set_from_pixbuf_slot:
  "status_notifier_item_has_pixbuf i (snd (status_notifier_item_set_from_pixbuf i pb p))"
  "status_notifier_item_get_icon_name i (snd (status_notifier_item_set_from_pixbuf i pb p)) = None"
  "status_notifier_item_get_pixbuf i (snd (status_notifier_item_set_from_pixbuf i pb p)) = pb"
  by (simp_all add: status_notifier_item_has_pixbuf_def status_notifier_item_get_icon_name_def
        status_notifier_item_get_pixbuf_def status_notifier_item_set_from_pixbuf_def
        free_icon_def Let_def split: option.splits)

text \<open>
  A slot set from a null pixbuf is outside the statements below.
  \<^verbatim>\<open>status_notifier_item_set_from_pixbuf\<close> does not test its argument: \<^verbatim>\<open>g_object_ref\<close> logs
  a critical message for the null pointer and the flag is set all the same. Both getters
  then report nothing, and the codec, which tests only the flag, builds one pixmap with
  the width and the height \<open>-1\<close> that gdk returns for a null pixbuf.
\<close>

lemma null_pixbuf_slot:
  "Critical \<in> set (fst (status_notifier_item_set_from_pixbuf i None p))"
  "status_notifier_item_has_pixbuf i (snd (status_notifier_item_set_from_pixbuf i None p))"
  "status_notifier_item_get_pixbuf i (snd (status_notifier_item_set_from_pixbuf i None p)) = None"
  "status_notifier_item_get_icon_name i (snd (status_notifier_item_set_from_pixbuf i None p))
     = None"
  "\<exists>bytes. get_builder_for_icon_pixmap order paint i
      (snd (status_notifier_item_set_from_pixbuf i None p)) = Some [(- 1, - 1, bytes)]"
  by (simp_all add: status_notifier_item_has_pixbuf_def status_notifier_item_get_icon_name_def
        status_notifier_item_get_pixbuf_def status_notifier_item_set_from_pixbuf_def
        free_icon_def Let_def get_builder_for_icon_pixmap_def gdk_pixbuf_get_width_def
        gdk_pixbuf_get_height_def)

lemma null_pixbuf_pixmap:
  "get_prop G_LITTLE_ENDIAN (paint_solid 0) ''IconPixmap''
     (snd (status_notifier_item_set_from_pixbuf STATUS_NOTIFIER_ICON None new_item))
     = Some (GVariant_a_iiay [(- 1, - 1, [])])"
  by (simp add: get_prop_def status_notifier_item_set_from_pixbuf_def free_icon_def Let_def
        get_builder_for_icon_pixmap_def gdk_pixbuf_get_width_def gdk_pixbuf_get_height_def
        builder_array_def paint_solid_def)

lemma builder_array_without_bitmap:
  "\<not> has_pixbuf (icon p i) \<Longrightarrow> builder_array (get_builder_for_icon_pixmap order paint i p) = []"
  by (simp add: encode_without_bitmap builder_array_def)

lemma get_prop_strings:
  "get_prop order paint ''Id'' p = Some (GVariant_s (id_str p))"
  "title p = None \<Longrightarrow> get_prop order paint ''Title'' p = Some (GVariant_s (Some []))"
  "attention_movie_name p = None \<Longrightarrow>
     get_prop order paint ''AttentionMovieName'' p = Some (GVariant_s (Some []))"
  by (simp_all add: get_prop_def or_empty_def)

lemma get_prop_pixmaps:
  "\<not> status_notifier_item_has_pixbuf STATUS_NOTIFIER_ICON p \<Longrightarrow>
     get_prop order paint ''IconPixmap'' p = Some (GVariant_a_iiay [])"
  "\<not> status_notifier_item_has_pixbuf STATUS_NOTIFIER_OVERLAY_ICON p \<Longrightarrow>
     get_prop order paint ''OverlayIconPixmap'' p = Some (GVariant_a_iiay [])"
  "\<not> status_notifier_item_has_pixbuf STATUS_NOTIFIER_ATTENTION_ICON p \<Longrightarrow>
     get_prop order paint ''AttentionIconPixmap'' p = Some (GVariant_a_iiay [])"
  by (simp_all add: get_prop_def builder_array_without_bitmap status_notifier_item_has_pixbuf_def)

lemma get_prop_icon_names:
  "status_notifier_item_has_pixbuf STATUS_NOTIFIER_ICON p
     \<or> status_notifier_item_get_icon_name STATUS_NOTIFIER_ICON p = None \<Longrightarrow>
     get_prop order paint ''IconName'' p = Some (GVariant_s (Some []))"
  "status_notifier_item_has_pixbuf STATUS_NOTIFIER_OVERLAY_ICON p
     \<or> status_notifier_item_get_icon_name STATUS_NOTIFIER_OVERLAY_ICON p = None \<Longrightarrow>
     get_prop order paint ''OverlayIconName'' p = Some (GVariant_s (Some []))"
  "status_notifier_item_has_pixbuf STATUS_NOTIFIER_ATTENTION_ICON p
     \<or> status_notifier_item_get_icon_name STATUS_NOTIFIER_ATTENTION_ICON p = None \<Longrightarrow>
     get_prop order paint ''AttentionIconName'' p = Some (GVariant_s (Some []))"
  by (auto simp add: get_prop_def or_empty_def status_notifier_item_has_pixbuf_def
        status_notifier_item_get_icon_name_def simp del: icon_name.simps split: if_splits)

lemma get_prop_tooltip:
  "\<exists>name pixmaps t b.
     get_prop order paint ''ToolTip'' p = Some (GVariant_sa_iiay_ss name pixmaps t b)
     \<and> (status_notifier_item_has_pixbuf STATUS_NOTIFIER_TOOLTIP_ICON p
          \<or> status_notifier_item_get_icon_name STATUS_NOTIFIER_TOOLTIP_ICON p = None
          \<longrightarrow> name = [])
     \<and> (\<not> status_notifier_item_has_pixbuf STATUS_NOTIFIER_TOOLTIP_ICON p \<longrightarrow> pixmaps = [])
     \<and> (tooltip_title p = None \<longrightarrow> t = [])
     \<and> (tooltip_body p = None \<longrightarrow> b = [])"
  by (auto simp add: get_prop_def or_empty_def builder_array_def
        status_notifier_item_has_pixbuf_def status_notifier_item_get_icon_name_def
        simp del: icon_name.simps split: if_splits)

text \<open>
  C7, amended. Id is read as the pointer stored at creation. Title and
  AttentionMovieName are the empty string when unset. Each of the three pixmap properties
  is the empty array when \<^verbatim>\<open>status_notifier_item_has_pixbuf\<close> is false for its slot, which
  it is in a new item and after the slot was set from an icon name. Each of the three
  icon-name properties is the empty string when \<^verbatim>\<open>status_notifier_item_has_pixbuf\<close> is true
  for its slot, which it is after the slot was set from a pixbuf, and when the slot has no
  name. ToolTip always has a value, whose icon name, pixmap array, title and body are empty
  under the same conditions on the tooltip slot and the two tooltip strings.
\<close>

theorem property_reads_default_to_empty:
  "get_prop order paint ''Id'' p = Some (GVariant_s (id_str p))
   \<and> (title p = None \<longrightarrow> get_prop order paint ''Title'' p = Some (GVariant_s (Some [])))
   \<and> (attention_movie_name p = None \<longrightarrow>
        get_prop order paint ''AttentionMovieName'' p = Some (GVariant_s (Some [])))
   \<and> (\<not> status_notifier_item_has_pixbuf STATUS_NOTIFIER_ICON p \<longrightarrow>
        get_prop order paint ''IconPixmap'' p = Some (GVariant_a_iiay []))
   \<and> (\<not> status_notifier_item_has_pixbuf STATUS_NOTIFIER_OVERLAY_ICON p \<longrightarrow>
        get_prop order paint ''OverlayIconPixmap'' p = Some (GVariant_a_iiay []))
   \<and> (\<not> status_notifier_item_has_pixbuf STATUS_NOTIFIER_ATTENTION_ICON p \<longrightarrow>
        get_prop order paint ''AttentionIconPixmap'' p = Some (GVariant_a_iiay []))
   \<and> (status_notifier_item_has_pixbuf STATUS_NOTIFIER_ICON p
        \<or> status_notifier_item_get_icon_name STATUS_NOTIFIER_ICON p = None
        \<longrightarrow> get_prop order paint ''IconName'' p = Some (GVariant_s (Some [])))
   \<and> (status_notifier_item_has_pixbuf STATUS_NOTIFIER_OVERLAY_ICON p
        \<or> status_notifier_item_get_icon_name STATUS_NOTIFIER_OVERLAY_ICON p = None
        \<longrightarrow> get_prop order paint ''OverlayIconName'' p = Some (GVariant_s (Some [])))
   \<and> (status_notifier_item_has_pixbuf STATUS_NOTIFIER_ATTENTION_ICON p
        \<or> status_notifier_item_get_icon_name STATUS_NOTIFIER_ATTENTION_ICON p = None
        \<longrightarrow> get_prop order paint ''AttentionIconName'' p = Some (GVariant_s (Some [])))
   \<and> (\<exists>name pixmaps t b.
        get_prop order paint ''ToolTip'' p = Some (GVariant_sa_iiay_ss name pixmaps t b)
        \<and> (status_notifier_item_has_pixbuf STATUS_NOTIFIER_TOOLTIP_ICON p
             \<or> status_notifier_item_get_icon_name STATUS_NOTIFIER_TOOLTIP_ICON p = None
             \<longrightarrow> name = [])
        \<and> (\<not> status_notifier_item_has_pixbuf STATUS_NOTIFIER_TOOLTIP_ICON p \<longrightarrow> pixmaps = [])
        \<and> (tooltip_title p = None \<longrightarrow> t = [])
        \<and> (tooltip_body p = None \<longrightarrow> b = []))
   \<and> \<not> status_notifier_item_has_pixbuf i new_item
   \<and> status_notifier_item_get_icon_name i new_item = None
   \<and> \<not> status_notifier_item_has_pixbuf i (snd (status_notifier_item_set_from_icon_name i n q))
   \<and> status_notifier_item_get_icon_name i (snd (status_notifier_item_set_from_icon_name i n q))
       = n
   \<and> status_notifier_item_has_pixbuf i (snd (status_notifier_item_set_from_pixbuf i pb q))
   \<and> status_notifier_item_get_pixbuf i (snd (status_notifier_item_set_from_pixbuf i pb q)) = pb"
  using get_prop_strings [where order = order and paint = paint and p = p]
    get_prop_pixmaps [where order = order and paint = paint and p = p]
    get_prop_icon_names [where order = order and paint = paint and p = p]
    get_prop_tooltip [where order = order and paint = paint and p = p]
    new_item_slot [of i] set_from_icon_name_slot [of i n q] set_from_pixbuf_slot [of i pb q]
  by (intro conjI impI) blast+

theorem property_reads_default_to_empty_witness:
  "title new_item = None
   \<and> get_prop G_LITTLE_ENDIAN (paint_solid 0) ''Title'' new_item
       = Some (GVariant_s (Some []))
   \<and> get_prop G_LITTLE_ENDIAN (paint_solid 0) ''AttentionIconName'' new_item
       = Some (GVariant_s (Some []))
   \<and> get_prop G_LITTLE_ENDIAN (paint_solid 0) ''AttentionIconPixmap'' new_item
       = Some (GVariant_a_iiay [])
   \<and> get_prop G_LITTLE_ENDIAN (paint_solid 0) ''ToolTip'' new_item
       = Some (GVariant_sa_iiay_ss [] [] [] [])
   \<and> status_notifier_item_get_icon_name STATUS_NOTIFIER_ICON
        (snd (status_notifier_item_set_from_icon_name STATUS_NOTIFIER_ICON (Some ''mail-unread'')
                new_item)) = Some ''mail-unread''
   \<and> \<not> status_notifier_item_has_pixbuf STATUS_NOTIFIER_ICON
        (snd (status_notifier_item_set_from_icon_name STATUS_NOTIFIER_ICON (Some ''mail-unread'')
                new_item))
   \<and> get_prop G_LITTLE_ENDIAN (paint_solid 0) ''IconPixmap''
        (snd (status_notifier_item_set_from_icon_name STATUS_NOTIFIER_ICON (Some ''mail-unread'')
                new_item)) = Some (GVariant_a_iiay [])
   \<and> status_notifier_item_has_pixbuf STATUS_NOTIFIER_OVERLAY_ICON
        (snd (status_notifier_item_set_from_pixbuf STATUS_NOTIFIER_OVERLAY_ICON
                (Some \<lparr>pixbuf_width = 1, pixbuf_height = 1, pixbuf_pixels = [0, 0, 0, 255]\<rparr>)
                (snd (status_notifier_item_set_from_icon_name STATUS_NOTIFIER_OVERLAY_ICON
                        (Some ''emblem'') new_item))))
   \<and> get_prop G_LITTLE_ENDIAN (paint_solid 0) ''OverlayIconName''
        (snd (status_notifier_item_set_from_pixbuf STATUS_NOTIFIER_OVERLAY_ICON
                (Some \<lparr>pixbuf_width = 1, pixbuf_height = 1, pixbuf_pixels = [0, 0, 0, 255]\<rparr>)
                (snd (status_notifier_item_set_from_icon_name STATUS_NOTIFIER_OVERLAY_ICON
                        (Some ''emblem'') new_item))))
       = Some (GVariant_s (Some []))"
proof -
  let ?named = "snd (status_notifier_item_set_from_icon_name STATUS_NOTIFIER_ICON
                       (Some ''mail-unread'') new_item)"
  let ?pb = "Some \<lparr>pixbuf_width = 1, pixbuf_height = 1, pixbuf_pixels = [0, 0, 0, 255]\<rparr>"
  let ?emblem = "snd (status_notifier_item_set_from_icon_name STATUS_NOTIFIER_OVERLAY_ICON
                        (Some ''emblem'') new_item)"
  let ?drawn = "snd (status_notifier_item_set_from_pixbuf STATUS_NOTIFIER_OVERLAY_ICON ?pb
                       ?emblem)"
  note fresh = property_reads_default_to_empty
    [where order = G_LITTLE_ENDIAN and paint = "paint_solid 0" and p = new_item
       and i = STATUS_NOTIFIER_ICON and n = "Some ''mail-unread''" and q = new_item and pb = ?pb]
  note named = property_reads_default_to_empty
    [where order = G_LITTLE_ENDIAN and paint = "paint_solid 0" and p = ?named
       and i = STATUS_NOTIFIER_ICON and n = "Some ''mail-unread''" and q = new_item and pb = ?pb]
  note drawn = property_reads_default_to_empty
    [where order = G_LITTLE_ENDIAN and paint = "paint_solid 0" and p = ?drawn
       and i = STATUS_NOTIFIER_OVERLAY_ICON and n = "Some ''emblem''" and q = ?emblem
       and pb = ?pb]
  have unset: "title new_item = None" "tooltip_title new_item = None"
    "tooltip_body new_item = None"
    "\<not> status_notifier_item_has_pixbuf STATUS_NOTIFIER_ATTENTION_ICON new_item"
    "\<not> status_notifier_item_has_pixbuf STATUS_NOTIFIER_TOOLTIP_ICON new_item"
    "status_notifier_item_get_icon_name STATUS_NOTIFIER_ATTENTION_ICON new_item = None"
    "status_notifier_item_get_icon_name STATUS_NOTIFIER_TOOLTIP_ICON new_item = None"
    by (simp_all add: new_item_def status_notifier_item_has_pixbuf_def
          status_notifier_item_get_icon_name_def)
  from fresh unset have a: "get_prop G_LITTLE_ENDIAN (paint_solid 0) ''Title'' new_item
       = Some (GVariant_s (Some []))"
    and b: "get_prop G_LITTLE_ENDIAN (paint_solid 0) ''AttentionIconName'' new_item
       = Some (GVariant_s (Some []))"
    and c: "get_prop G_LITTLE_ENDIAN (paint_solid 0) ''AttentionIconPixmap'' new_item
       = Some (GVariant_a_iiay [])"
    by blast+
  from fresh unset have d: "get_prop G_LITTLE_ENDIAN (paint_solid 0) ''ToolTip'' new_item
       = Some (GVariant_sa_iiay_ss [] [] [] [])"
    by auto
  from named have e: "status_notifier_item_get_icon_name STATUS_NOTIFIER_ICON ?named
       = Some ''mail-unread''"
    and f: "\<not> status_notifier_item_has_pixbuf STATUS_NOTIFIER_ICON ?named"
    by blast+
  from named f have g: "get_prop G_LITTLE_ENDIAN (paint_solid 0) ''IconPixmap'' ?named
       = Some (GVariant_a_iiay [])"
    by blast
  from drawn have h: "status_notifier_item_has_pixbuf STATUS_NOTIFIER_OVERLAY_ICON ?drawn"
    by blast
  from drawn h have k: "get_prop G_LITTLE_ENDIAN (paint_solid 0) ''OverlayIconName'' ?drawn
       = Some (GVariant_s (Some []))"
    by blast
  from unset(1) a b c d e f g h k show ?thesis
    by blast
qed

section \<open>Non-fatal registration failures\<close>




lemma dbus_free_policy: "register_bus_name (snd (dbus_free p)) = register_bus_name p"
  by (simp add: dbus_free_def Let_def)






lemma dbus_free_unrefs:
  "dbus_proxy p = Some x \<Longrightarrow> UnrefProxy x \<in> set (fst (dbus_free p))"
  by (simp add: dbus_free_def Let_def split: option.splits)


lemma dbus_failed_nonfatal_effects:
  "fst (dbus_failed e False p) = fst (dbus_free p) @ [SignalRegistrationFailed e]"
  by (simp add: dbus_failed_def and_then_fst)




text \<open>
  Without the hiding of the proxy from \<^verbatim>\<open>dbus_free\<close>, the proxy would be released: a
  non-fatal failure on an item that holds a proxy releases it.
\<close>

lemma dbus_failed_releases_proxy:
  "dbus_proxy p = Some x \<Longrightarrow> UnrefProxy x \<in> set (fst (dbus_failed e False p))"
  by (simp add: dbus_failed_nonfatal_effects dbus_free_unrefs)

lemma run_steps_append:
  "run_steps (xs @ ys) s =
     (case run_steps xs s of (e1, s1) \<Rightarrow>
      case run_steps ys s1 of (e2, s2) \<Rightarrow> (e1 @ e2, s2))"
  by (induction xs arbitrary: s) (simp_all add: case_prod_beta)

lemma run_steps_fst:
  "fst (run_steps (st # sts) s) = fst (run_step st s) @ fst (run_steps sts (snd (run_step st s)))"
  by (simp add: case_prod_beta)

lemma run_steps_snd:
  "snd (run_steps (st # sts) s) = snd (run_steps sts (snd (run_step st s)))"
  by (simp add: case_prod_beta)




















section \<open>Sandbox detection\<close>

text \<open>
  The property \<^verbatim>\<open>register-name-on-bus\<close> is construct-only, and its documentation says that
  the value \<open>-1\<close> is replaced by \<open>0\<close> or \<open>1\<close> on first use. \<^verbatim>\<open>should_register_name\<close> is
  the only function that writes \<^verbatim>\<open>priv->register_bus_name\<close> after the item is built, and
  the only one that tests the marker file. The lemmas below follow the field and the file
  tests through every public call and every callback of the bus, then through every
  sequence of them.
\<close>

lemma file_tests_append: "file_tests (xs @ ys) = file_tests xs + file_tests ys"
  by (induction xs rule: file_tests.induct) simp_all

lemma dbus_free_no_file_test: "file_tests (fst (dbus_free p)) = 0"
  by (simp add: dbus_free_def Let_def file_tests_append split: option.splits)

lemma dbus_failed_marker:
  "file_tests (fst (dbus_failed e f p)) = 0"
  "register_bus_name (snd (dbus_failed e f p)) = register_bus_name p"
  by (simp_all add: dbus_failed_def and_then_fst and_then_snd file_tests_append
        dbus_free_no_file_test dbus_free_policy)

lemma bus_acquired_marker:
  "file_tests (fst (bus_acquired c r p)) = 0"
  "register_bus_name (snd (bus_acquired c r p)) = register_bus_name p"
  by (simp_all add: bus_acquired_def and_then_fst and_then_snd file_tests_append
        dbus_failed_marker)

lemma name_acquired_marker:
  "file_tests (fst (name_acquired n p)) = 0"
  "register_bus_name (snd (name_acquired n p)) = register_bus_name p"
  by (simp_all add: name_acquired_def split: option.splits)

lemma dbus_reg_item_marker:
  "file_tests (fst (dbus_reg_item bus u p)) = (if register_bus_name p = - 1 then 1 else 0)"
  "register_bus_name (fst (snd (dbus_reg_item bus u p))) =
     (if register_bus_name p = - 1 then (if flatpak_info bus then 0 else 1)
      else register_bus_name p)"
  by (simp_all add: dbus_reg_item_def should_register_name_def Let_def case_prod_beta
        file_tests_append bus_acquired_marker name_acquired_marker)

lemma call_marker:
  "file_tests (fst (call c p)) = 0"
  "register_bus_name (snd (call c p)) = register_bus_name p"
  by (cases c;
      simp add: setter_defs and_then_fst and_then_snd free_icon_def Let_def file_tests_append
        dbus_notify_def split: option.splits prop_id.splits)+


lemma register_item_cb_marker:
  "file_tests (fst (register_item_cb ok p)) = 0"
  "register_bus_name (snd (register_item_cb ok p)) = register_bus_name p"
  by (simp_all add: register_item_cb_def dbus_failed_marker)

lemma name_lost_marker:
  "file_tests (fst (name_lost c p)) = 0"
  "register_bus_name (snd (name_lost c p)) = register_bus_name p"
  by (simp_all add: name_lost_def dbus_failed_marker)

lemma watcher_appeared_marker:
  "file_tests (fst (watcher_appeared p)) = 0"
  "register_bus_name (snd (watcher_appeared p)) = register_bus_name p"
  by (simp_all add: watcher_appeared_def)

lemma watcher_vanished_marker:
  "file_tests (fst (watcher_vanished p)) = 0"
  "register_bus_name (snd (watcher_vanished p)) = register_bus_name p"
  by (simp_all add: watcher_vanished_def Let_def case_prod_beta dbus_failed_marker)

lemma watcher_signal_marker:
  "file_tests (fst (watcher_signal sg bus u p))
     = (if sg = ''StatusNotifierHostRegistered'' \<and> register_bus_name p = - 1 then 1 else 0)"
  "register_bus_name (fst (snd (watcher_signal sg bus u p))) =
     (if sg = ''StatusNotifierHostRegistered'' \<and> register_bus_name p = - 1
      then (if flatpak_info bus then 0 else 1) else register_bus_name p)"
  by (simp_all add: watcher_signal_def case_prod_beta dbus_reg_item_marker)

lemma proxy_cb_marker:
  "file_tests (fst (proxy_cb r h sid bus u p))
     = (if r \<noteq> None \<and> h = Some True \<and> register_bus_name p = - 1 then 1 else 0)"
  "register_bus_name (fst (snd (proxy_cb r h sid bus u p))) =
     (if r \<noteq> None \<and> h = Some True \<and> register_bus_name p = - 1
      then (if flatpak_info bus then 0 else 1) else register_bus_name p)"
proof -
  show "file_tests (fst (proxy_cb r h sid bus u p))
     = (if r \<noteq> None \<and> h = Some True \<and> register_bus_name p = - 1 then 1 else 0)"
  proof (cases "r = None")
    case True
    then show ?thesis by (simp add: proxy_cb_def case_prod_beta Let_def dbus_failed_marker)
  next
    case False
    then obtain x where r: "r = Some x" by (cases r) auto
    show ?thesis
    proof (cases "h = Some True")
      case True
      with r show ?thesis by (simp add: proxy_cb_def Let_def dbus_reg_item_marker)
    next
      case no: False
      then have "h = None \<or> h = Some False" by (cases h) auto
      with no r show ?thesis
        by (simp add: proxy_cb_def case_prod_beta Let_def file_tests_append dbus_failed_marker)
    qed
  qed
  show "register_bus_name (fst (snd (proxy_cb r h sid bus u p))) =
     (if r \<noteq> None \<and> h = Some True \<and> register_bus_name p = - 1
      then (if flatpak_info bus then 0 else 1) else register_bus_name p)"
  proof (cases "r = None")
    case True
    then show ?thesis by (simp add: proxy_cb_def case_prod_beta Let_def dbus_failed_marker)
  next
    case False
    then obtain x where r: "r = Some x" by (cases r) auto
    show ?thesis
    proof (cases "h = Some True")
      case True
      with r show ?thesis by (simp add: proxy_cb_def Let_def dbus_reg_item_marker)
    next
      case no: False
      then have "h = None \<or> h = Some False" by (cases h) auto
      with no r show ?thesis
        by (simp add: proxy_cb_def case_prod_beta Let_def dbus_failed_marker)
    qed
  qed
qed

lemma run_callback_tests:
  "file_tests (fst (run_callback bus cb u p)) \<le> (if register_bus_name p = - 1 then 1 else 0)"
proof (cases cb)
  case Watcher_appeared
  then show ?thesis by (simp add: case_prod_beta watcher_appeared_marker)
next
  case Watcher_vanished
  then show ?thesis by (simp add: case_prod_beta watcher_vanished_marker)
next
  case (Proxy_cb r h sid)
  then show ?thesis by (simp add: proxy_cb_marker)
next
  case (Watcher_signal sg)
  then show ?thesis by (simp add: watcher_signal_marker)
next
  case (Bus_acquired c r)
  then show ?thesis by (simp add: case_prod_beta bus_acquired_marker)
next
  case (Name_acquired n)
  then show ?thesis by (simp add: case_prod_beta name_acquired_marker)
next
  case (Name_lost c)
  then show ?thesis by (simp add: case_prod_beta name_lost_marker)
next
  case (Register_item_cb ok)
  then show ?thesis by (simp add: case_prod_beta register_item_cb_marker)
qed

lemma run_callback_keeps:
  assumes "register_bus_name p \<noteq> - 1"
  shows "register_bus_name (fst (snd (run_callback bus cb u p))) = register_bus_name p"
proof (cases cb)
  case Watcher_appeared
  then show ?thesis by (simp add: case_prod_beta watcher_appeared_marker)
next
  case Watcher_vanished
  then show ?thesis by (simp add: case_prod_beta watcher_vanished_marker)
next
  case (Proxy_cb r h sid)
  then show ?thesis using assms by (simp add: proxy_cb_marker)
next
  case (Watcher_signal sg)
  then show ?thesis using assms by (simp add: watcher_signal_marker)
next
  case (Bus_acquired c r)
  then show ?thesis by (simp add: case_prod_beta bus_acquired_marker)
next
  case (Name_acquired n)
  then show ?thesis by (simp add: case_prod_beta name_acquired_marker)
next
  case (Name_lost c)
  then show ?thesis by (simp add: case_prod_beta name_lost_marker)
next
  case (Register_item_cb ok)
  then show ?thesis by (simp add: case_prod_beta register_item_cb_marker)
qed

lemma run_callback_resolves:
  assumes "file_tests (fst (run_callback bus cb u p)) = 1"
  shows "register_bus_name (fst (snd (run_callback bus cb u p))) \<noteq> - 1"
proof (cases cb)
  case Watcher_appeared
  then show ?thesis using assms by (simp add: case_prod_beta watcher_appeared_marker)
next
  case Watcher_vanished
  then show ?thesis using assms by (simp add: case_prod_beta watcher_vanished_marker)
next
  case (Proxy_cb r h sid)
  then show ?thesis using assms by (simp add: proxy_cb_marker split: if_splits)
next
  case (Watcher_signal sg)
  then show ?thesis using assms by (simp add: watcher_signal_marker split: if_splits)
next
  case (Bus_acquired c r)
  then show ?thesis using assms by (simp add: case_prod_beta bus_acquired_marker)
next
  case (Name_acquired n)
  then show ?thesis using assms by (simp add: case_prod_beta name_acquired_marker)
next
  case (Name_lost c)
  then show ?thesis using assms by (simp add: case_prod_beta name_lost_marker)
next
  case (Register_item_cb ok)
  then show ?thesis using assms by (simp add: case_prod_beta register_item_cb_marker)
qed

lemma run_step_marker:
  "file_tests (fst (run_step st s)) \<le> (if register_bus_name (item s) = - 1 then 1 else 0)"
  "register_bus_name (item s) \<noteq> - 1 \<Longrightarrow>
     register_bus_name (item (snd (run_step st s))) = register_bus_name (item s)"
  "file_tests (fst (run_step st s)) = 1 \<Longrightarrow>
     register_bus_name (item (snd (run_step st s))) \<noteq> - 1"
proof -
  show "file_tests (fst (run_step st s)) \<le> (if register_bus_name (item s) = - 1 then 1 else 0)"
  proof (cases st)
    case (Call c)
    then show ?thesis by (simp add: case_prod_beta call_marker)
  next
    case (Bus bus cb)
    then show ?thesis
      using run_callback_tests [of bus cb "uniq s" "item s"]
      by (simp add: case_prod_beta deliver_def del: run_callback.simps split: if_splits)
  qed
  show "register_bus_name (item s) \<noteq> - 1 \<Longrightarrow>
     register_bus_name (item (snd (run_step st s))) = register_bus_name (item s)"
  proof (cases st)
    case (Call c)
    then show ?thesis by (simp add: case_prod_beta call_marker)
  next
    case (Bus bus cb)
    assume "register_bus_name (item s) \<noteq> - 1"
    then show ?thesis
      using Bus run_callback_keeps [of "item s" bus cb "uniq s"]
      by (simp add: case_prod_beta deliver_def del: run_callback.simps)
  qed
  show "file_tests (fst (run_step st s)) = 1 \<Longrightarrow>
     register_bus_name (item (snd (run_step st s))) \<noteq> - 1"
  proof (cases st)
    case (Call c)
    then show "file_tests (fst (run_step st s)) = 1 \<Longrightarrow> ?thesis"
      by (simp add: case_prod_beta call_marker)
  next
    case (Bus bus cb)
    assume "file_tests (fst (run_step st s)) = 1"
    then show ?thesis
      using Bus run_callback_resolves [of bus cb "uniq s" "item s"]
      by (simp add: case_prod_beta deliver_def del: run_callback.simps split: if_splits)
  qed
qed

lemma run_steps_resolved:
  "register_bus_name (item s) \<noteq> - 1 \<Longrightarrow>
   file_tests (fst (run_steps sts s)) = 0
   \<and> register_bus_name (item (snd (run_steps sts s))) = register_bus_name (item s)"
proof (induction sts arbitrary: s)
  case Nil
  then show ?case by simp
next
  case (Cons st sts)
  have a: "file_tests (fst (run_step st s)) = 0"
    using run_step_marker(1) [of st s] Cons.prems by simp
  have b: "register_bus_name (item (snd (run_step st s))) = register_bus_name (item s)"
    using run_step_marker(2) [OF Cons.prems] .
  from Cons.IH [of "snd (run_step st s)"] a b Cons.prems show ?case
    by (simp add: case_prod_beta file_tests_append)
qed

lemma run_steps_at_most_once: "file_tests (fst (run_steps sts s)) \<le> 1"
proof (induction sts arbitrary: s)
  case Nil
  then show ?case by simp
next
  case (Cons st sts)
  have le: "file_tests (fst (run_step st s)) \<le> 1"
    using run_step_marker(1) [of st s] by (simp split: if_splits)
  show ?case
  proof (cases "file_tests (fst (run_step st s)) = 1")
    case True
    then have "register_bus_name (item (snd (run_step st s))) \<noteq> - 1"
      by (rule run_step_marker(3))
    then have "file_tests (fst (run_steps sts (snd (run_step st s)))) = 0"
      using run_steps_resolved by blast
    then show ?thesis using True by (simp add: case_prod_beta file_tests_append)
  next
    case False
    with le have "file_tests (fst (run_step st s)) = 0" by simp
    then show ?thesis
      using Cons.IH [of "snd (run_step st s)"] by (simp add: case_prod_beta file_tests_append)
  qed
qed

lemma first_resolution:
  assumes "register_bus_name p = - 1"
  shows "file_tests (fst (should_register_name f p)) = 1"
    and "snd (snd (should_register_name f p)) = (\<not> f)"
    and "register_bus_name (fst (snd (should_register_name f p))) = (if f then 0 else 1)"
  using assms by (simp_all add: should_register_name_def Let_def)

lemma later_resolution:
  assumes "register_bus_name p = - 1" "item s = fst (snd (should_register_name f p))"
  shows "should_register_name f2 (item (snd (run_steps sts s)))
           = ([], item (snd (run_steps sts s)), \<not> f)"
proof -
  have "register_bus_name (item s) = (if f then 0 else 1)"
    using assms first_resolution(3) by simp
  then have a: "register_bus_name (item s) \<noteq> - 1" by simp
  have "register_bus_name (item (snd (run_steps sts s))) = (if f then 0 else 1)"
    using run_steps_resolved [OF a, of sts] \<open>register_bus_name (item s) = (if f then 0 else 1)\<close>
    by simp
  then show ?thesis by (simp add: should_register_name_def)
qed

text \<open>
  C9, as stated, fails: the answer is kept in the item, not in the process, so two new
  items of one process, each resolving its identity for the first time, test the marker
  file twice.
\<close>

theorem marker_consulted_per_item_counterexample:
  "file_tests (fst (should_register_name False new_item)
               @ fst (should_register_name False (new_item\<lparr>id_str := Some ''second''\<rparr>))) = 2"
  by (simp add: should_register_name_def new_item_def)

text \<open>
  C9, amended. The marker is tested at most once per item: in every sequence of public
  calls and bus callbacks on one item, from any state of the process, the marker file is
  tested at most once, and never when the policy of the item is not \<open>-1\<close>, in which case the
  sequence leaves the policy as it is. The first resolution of an item whose policy is
  \<open>-1\<close> tests the marker file once, answers that the name is to be claimed exactly when the
  marker is absent, and stores the answer as the policy (\<open>0\<close> when the marker is present,
  \<open>1\<close> when it is absent); after any sequence of calls and callbacks on that item, a
  later resolution tests nothing, changes nothing and gives the same answer, whatever the
  marker then is. With a policy other than \<open>-1\<close> a resolution tests nothing and claims the
  name exactly when the policy is not \<open>0\<close>.
\<close>

theorem marker_consulted_once_per_item:
  "file_tests (fst (run_steps sts s)) \<le> 1
   \<and> (register_bus_name (item s) \<noteq> - 1 \<longrightarrow>
        file_tests (fst (run_steps sts s)) = 0
        \<and> register_bus_name (item (snd (run_steps sts s))) = register_bus_name (item s))
   \<and> (register_bus_name p = - 1 \<longrightarrow>
        file_tests (fst (should_register_name f p)) = 1
        \<and> snd (snd (should_register_name f p)) = (\<not> f)
        \<and> register_bus_name (fst (snd (should_register_name f p))) = (if f then 0 else 1)
        \<and> (item s = fst (snd (should_register_name f p)) \<longrightarrow>
             should_register_name f2 (item (snd (run_steps sts s)))
               = ([], item (snd (run_steps sts s)), \<not> f)))
   \<and> (register_bus_name p \<noteq> - 1 \<longrightarrow>
        should_register_name f p = ([], p, register_bus_name p \<noteq> 0))"
  using run_steps_at_most_once [of sts s] run_steps_resolved [of s sts]
    first_resolution [of p f] later_resolution [of p s f f2 sts]
  by (simp add: should_register_name_def)

theorem marker_consulted_once_per_item_witness:
  "file_tests (fst (run_steps
      (handshake \<lparr>flatpak_info = True, pid = 100, register_object_id = 3, own_name_id = 4\<rparr>
         1 (Proxy (Connection '':1.7'')) (Some True) 2 (Connection '':1.7'') 3 ''n''
       @ handshake \<lparr>flatpak_info = False, pid = 100, register_object_id = 3, own_name_id = 4\<rparr>
         5 (Proxy (Connection '':1.7'')) (Some True) 6 (Connection '':1.7'') 7 ''n'')
      (idle new_item 0))) \<le> 1
   \<and> register_bus_name new_item = - 1
   \<and> file_tests (fst (should_register_name True new_item)) = 1
   \<and> snd (snd (should_register_name True new_item)) = False
   \<and> register_bus_name (fst (snd (should_register_name True new_item))) \<noteq> - 1
   \<and> file_tests (fst (run_steps
        [Call (Set_title (Some ''t'')),
         Bus \<lparr>flatpak_info = False, pid = 100, register_object_id = 3, own_name_id = 4\<rparr>
           (Name_lost None),
         Call (Register 5)]
        (idle (fst (snd (should_register_name True new_item))) 0))) = 0
   \<and> should_register_name False
        (item (snd (run_steps
          [Call (Set_title (Some ''t'')),
           Bus \<lparr>flatpak_info = False, pid = 100, register_object_id = 3, own_name_id = 4\<rparr>
             (Name_lost None),
           Call (Register 5)]
          (idle (fst (snd (should_register_name True new_item))) 0))))
       = ([], item (snd (run_steps
          [Call (Set_title (Some ''t'')),
           Bus \<lparr>flatpak_info = False, pid = 100, register_object_id = 3, own_name_id = 4\<rparr>
             (Name_lost None),
           Call (Register 5)]
          (idle (fst (snd (should_register_name True new_item))) 0))), False)
   \<and> register_bus_name (new_item\<lparr>register_bus_name := 1\<rparr>) \<noteq> - 1
   \<and> should_register_name True (new_item\<lparr>register_bus_name := 1\<rparr>)
       = ([], new_item\<lparr>register_bus_name := 1\<rparr>, True)"
proof -
  let ?bus = "\<lparr>flatpak_info = False, pid = 100, register_object_id = 3, own_name_id = 4\<rparr>"
  let ?sts = "[Call (Set_title (Some ''t'')), Bus ?bus (Name_lost None), Call (Register 5)]"
  let ?s = "idle (fst (snd (should_register_name True new_item))) 0"
  have fresh: "register_bus_name new_item = - 1"
    by (simp add: new_item_def)
  have same: "item ?s = fst (snd (should_register_name True new_item))"
    by (simp add: idle_def)
  have known: "register_bus_name (item ?s) \<noteq> - 1"
    by (simp add: idle_def should_register_name_def new_item_def)
  have set: "register_bus_name (new_item\<lparr>register_bus_name := 1\<rparr>) \<noteq> - 1"
    by simp
  note twice = marker_consulted_once_per_item
    [where sts = "handshake
           \<lparr>flatpak_info = True, pid = 100, register_object_id = 3, own_name_id = 4\<rparr>
           1 (Proxy (Connection '':1.7'')) (Some True) 2 (Connection '':1.7'') 3 ''n''
         @ handshake ?bus 5 (Proxy (Connection '':1.7'')) (Some True) 6 (Connection '':1.7'')
             7 ''n''"
       and s = "idle new_item 0" and p = new_item and f = True and ?f2.0 = False]
  note later = marker_consulted_once_per_item
    [where sts = ?sts and s = ?s and p = new_item and f = True and ?f2.0 = False]
  note given = marker_consulted_once_per_item
    [where sts = ?sts and s = ?s and p = "new_item\<lparr>register_bus_name := 1\<rparr>" and f = True
       and ?f2.0 = False]
  from twice have a: "file_tests (fst (run_steps
      (handshake \<lparr>flatpak_info = True, pid = 100, register_object_id = 3, own_name_id = 4\<rparr>
         1 (Proxy (Connection '':1.7'')) (Some True) 2 (Connection '':1.7'') 3 ''n''
       @ handshake ?bus 5 (Proxy (Connection '':1.7'')) (Some True) 6 (Connection '':1.7'')
           7 ''n'')
      (idle new_item 0))) \<le> 1"
    by (rule conjunct1)
  from later known have b: "file_tests (fst (run_steps ?sts ?s)) = 0"
    by blast
  from later fresh same have c: "file_tests (fst (should_register_name True new_item)) = 1"
    and d: "snd (snd (should_register_name True new_item)) = False"
    and e0: "should_register_name False (item (snd (run_steps ?sts ?s)))
             = ([], item (snd (run_steps ?sts ?s)), \<not> True)"
    by blast+
  from e0 have e: "should_register_name False (item (snd (run_steps ?sts ?s)))
             = ([], item (snd (run_steps ?sts ?s)), False)"
    by (simp only: not_True_eq_False)
  from given set have f: "should_register_name True (new_item\<lparr>register_bus_name := 1\<rparr>)
       = ([], new_item\<lparr>register_bus_name := 1\<rparr>, True)"
    by simp
  from known same have g: "register_bus_name (fst (snd (should_register_name True new_item))) \<noteq> - 1"
    by simp
  from a fresh c d g b e set f show ?thesis
    by blast
qed

end
